theory Spec2Isabelle
  imports Complex_Main "HOL-Library.Multiset"
begin

section \<open>Python values and exceptions\<close>

text \<open>
  The exporter (\<^verbatim>\<open>src/main.py\<close>) works on the values that \<^verbatim>\<open>r.json()\<close> returns: \<^verbatim>\<open>None\<close>,
  booleans, integers, floats, strings, lists and dicts with string keys. A dict is kept as
  the list of its items in insertion order (its keys are distinct); a float is kept as the
  real number it denotes (NaN and the infinities are not represented).
\<close>

datatype json =
    JNull
  | JBool bool
  | JInt int
  | JFloat real
  | JStr string
  | JArr "json list"
  | JObj "(string \<times> json) list"

text \<open>The exceptions the code can raise; only \<^verbatim>\<open>KeyError\<close> is ever caught.\<close>

datatype py_error = KeyError | TypeError | AttributeError | IndexError | ValueError

fun py_bind :: "py_error + 'a \<Rightarrow> ('a \<Rightarrow> py_error + 'b) \<Rightarrow> py_error + 'b" where
  "py_bind (Inl e) f = Inl e"
| "py_bind (Inr x) f = f x"

text \<open>\<^verbatim>\<open>v[k]\<close> for a string key \<open>k\<close>: only a dict accepts it.\<close>

fun getitem :: "json \<Rightarrow> string \<Rightarrow> py_error + json" where
  "getitem (JObj kvs) k = (case map_of kvs k of None \<Rightarrow> Inl KeyError | Some v \<Rightarrow> Inr v)"
| "getitem _ k = Inl TypeError"

text \<open>\<^verbatim>\<open>v.get(k)\<close>: \<^verbatim>\<open>None\<close> for a missing key; only a dict has the method.\<close>

fun dict_get :: "json \<Rightarrow> string \<Rightarrow> py_error + json" where
  "dict_get (JObj kvs) k = Inr (case map_of kvs k of None \<Rightarrow> JNull | Some v \<Rightarrow> v)"
| "dict_get _ k = Inl AttributeError"

text \<open>Truth value testing, as in \<^verbatim>\<open>if speedtest:\<close> and \<^verbatim>\<open>if not ttfb:\<close>.\<close>

fun truthy :: "json \<Rightarrow> bool" where
  "truthy JNull = False"
| "truthy (JBool b) = b"
| "truthy (JInt n) = (n \<noteq> 0)"
| "truthy (JFloat r) = (r \<noteq> 0)"
| "truthy (JStr s) = (s \<noteq> [])"
| "truthy (JArr xs) = (xs \<noteq> [])"
| "truthy (JObj kvs) = (kvs \<noteq> [])"

text \<open>\<^verbatim>\<open>str(n)\<close> for a natural number \<open>n\<close>, as the f-string \<^verbatim>\<open>f"p{p}_1h"\<close> formats it.\<close>

definition digit_char :: "nat \<Rightarrow> char" where
  "digit_char d = ''0123456789'' ! d"

fun str_nat :: "nat \<Rightarrow> string" where
  "str_nat n = (if n < 10 then [digit_char n] else str_nat (n div 10) @ [digit_char (n mod 10)])"

declare str_nat.simps [simp del]

section \<open>Metric families of the client library\<close>

text \<open>
  A sample of \<^verbatim>\<open>prometheus_client\<close> is a name, a dict of labels and a value. A metric
  family is an object with a name, a type, label names and the list of samples that
  \<^verbatim>\<open>add_metric\<close> appends to. The field \<open>cls\<close> is the Python class of the object, which
  selects its \<^verbatim>\<open>add\<close> method. The documentation strings are left out.
\<close>

record sample =
  s_name :: string
  s_labels :: "(string \<times> json) list"
  s_value :: json

datatype metric_type = Info | Gauge | Counter

datatype metric_class =
    NodeInfoMetric
  | NodePayoutInfoMetric
  | NodeVersionMetric
  | NodeWeightMetric
  | NodeBiasMetric
  | NodePenaltyMetric
  | NodeWeightedTTFBMetric
  | NodeWeightedHitsRatioMetric
  | NodeWeightedErrorsRatioMetric
  | NodeWeightedDupCacheMissRatioMetric
  | NodeLastRegistrationMetric
  | NodeCreationMetric
  | NodeDiskTotalMetric
  | NodeDiskUsedMetric
  | NodeDiskAvailableMetric
  | NodeMemoryTotalMetric
  | NodeMemoryFreeMetric
  | NodeMemoryAvailableMetric
  | NodeCPUNumberMetric
  | NodeCPULoadAvgMetric
  | NodeSentBytesTotalMetric
  | NodeSpeedtestUploadBandwidthMetric
  | NodeSpeedtestDownloadBandwidthMetric
  | NodeSpeedtestPingLatencyMetric
  | NodeReceivedBytesTotalMetric
  | NodeEstimatedEarningsMetric
  | NodeUptimeCompletionMetric
  | NodeRetrievalsMetric
  | NodeBandwidthServedMetric
  | NodeResponseDurationMetric
  | NodeRequestsMetric
  | NodeHealthCheckFailuresMetric
  | NodeRequirementsMinCPUCoresMetric
  | NodeRequirementsMinMemoryMetric
  | NodeRequirementsMinUploadSpeedMetric
  | NodeRequirementsMinDownloadSpeedMetric
  | NodeRequirementsMinDiskMetric
  | NodeRequirementsLastVersionMetric
  | NodeRequirementsMinVersionMetric

record family =
  cls :: metric_class
  name :: string
  mtype :: metric_type
  labelnames :: "string list"
  samples :: "sample list"

text \<open>\<^verbatim>\<open>d[k] = v\<close> on a dict kept as an item list: replace in place, or append.\<close>

fun dict_set :: "('k \<times> 'v) list \<Rightarrow> 'k \<Rightarrow> 'v \<Rightarrow> ('k \<times> 'v) list" where
  "dict_set [] k v = [(k, v)]"
| "dict_set ((k', v') # kvs) k v =
     (if k' = k then (k', v) # kvs else (k', v') # dict_set kvs k v)"

text \<open>\<^verbatim>\<open>d.update(e)\<close>, also \<^verbatim>\<open>dict(d, **e)\<close>.\<close>

definition dict_update :: "('k \<times> 'v) list \<Rightarrow> ('k \<times> 'v) list \<Rightarrow> ('k \<times> 'v) list" where
  "dict_update d e = foldl (\<lambda>acc (k, v). dict_set acc k v) d e"

text \<open>
  \<^verbatim>\<open>GaugeMetricFamily.add_metric(labels, value)\<close> appends
  \<^verbatim>\<open>Sample(self.name, dict(zip(self._labelnames, labels)), value)\<close>; the counter family
  appends the suffix \<^verbatim>\<open>_total\<close> to the name; the info family appends \<^verbatim>\<open>_info\<close>, merges
  the value dict into the labels and uses the value 1. The label names of every family of
  this program are distinct, so \<open>zip\<close> is the dict.
\<close>

definition gauge_add_metric :: "family \<Rightarrow> json list \<Rightarrow> json \<Rightarrow> family" where
  "gauge_add_metric self labels v =
     self\<lparr>samples := samples self @
       [\<lparr>s_name = name self, s_labels = zip (labelnames self) labels, s_value = v\<rparr>]\<rparr>"

definition counter_add_metric :: "family \<Rightarrow> json list \<Rightarrow> json \<Rightarrow> family" where
  "counter_add_metric self labels v =
     self\<lparr>samples := samples self @
       [\<lparr>s_name = name self @ ''_total'', s_labels = zip (labelnames self) labels,
         s_value = v\<rparr>]\<rparr>"

definition info_add_metric :: "family \<Rightarrow> json list \<Rightarrow> (string \<times> json) list \<Rightarrow> family" where
  "info_add_metric self labels v =
     self\<lparr>samples := samples self @
       [\<lparr>s_name = name self @ ''_info'',
         s_labels = dict_update (zip (labelnames self) labels) v, s_value = JInt 1\<rparr>]\<rparr>"

section \<open>Further operations on Python values\<close>

text \<open>
  What the standard library computes and the model cannot is a parameter:
  \<^item> \<open>mktime\<close> is \<^verbatim>\<open>datetime._mktime\<close>, which \<^verbatim>\<open>timestamp()\<close> of a naive \<^verbatim>\<open>datetime\<close> calls:
    from the seconds between 1970-01-01 00:00:00 and the wall-clock fields to the POSIX
    timestamp at which the local time zone of the process shows these fields. It is the
    identity when the process runs in UTC and \<open>\<lambda>t. t - off\<close> in a zone \<open>off\<close> seconds
    east of UTC;
  \<^item> \<open>set_iter\<close> is the order in which a set of strings is iterated (CPython follows the
    hash table, and string hashes are randomised per process): it is given the elements
    and returns them in the order of iteration;
  \<^item> \<open>py_repr\<close> is \<^verbatim>\<open>str\<close> on floats, lists and dicts.
\<close>

record env =
  mktime :: "int \<Rightarrow> int"
  set_iter :: "string list \<Rightarrow> string list"
  py_repr :: "json \<Rightarrow> string"

definition str_int :: "int \<Rightarrow> string" where
  "str_int n = (if n < 0 then ''-'' @ str_nat (nat (- n)) else str_nat (nat n))"

fun py_str :: "env \<Rightarrow> json \<Rightarrow> string" where
  "py_str env JNull = ''None''"
| "py_str env (JBool b) = (if b then ''True'' else ''False'')"
| "py_str env (JInt n) = str_int n"
| "py_str env (JStr s) = s"
| "py_str env v = py_repr env v"

text \<open>\<^verbatim>\<open>str.lower\<close>, on the ASCII letters (a \<open>char\<close> is a byte).\<close>

definition lower_char :: "char \<Rightarrow> char" where
  "lower_char c =
     (case map_of (zip ''ABCDEFGHIJKLMNOPQRSTUVWXYZ'' ''abcdefghijklmnopqrstuvwxyz'') c of
        None \<Rightarrow> c
      | Some l \<Rightarrow> l)"

definition bool_to_str :: "env \<Rightarrow> json \<Rightarrow> json" where
  "bool_to_str env v = JStr (map lower_char (py_str env v))"

text \<open>
  \<^verbatim>\<open>v[:8]\<close>: strings and lists can be sliced. (A dict raises \<^verbatim>\<open>TypeError\<close> up to
  Python 3.11 and \<^verbatim>\<open>KeyError\<close> from 3.12 on; no \<^verbatim>\<open>try\<close> encloses a slice.) A string
  is a list of \<open>char\<close>, one per character for ASCII text, which node identifiers are;
  Python counts code points, so for other text the first eight differ.
\<close>

fun id_short :: "json \<Rightarrow> py_error + json" where
  "id_short (JStr s) = Inr (JStr (take 8 s))"
| "id_short (JArr xs) = Inr (JArr (take 8 xs))"
| "id_short _ = Inl TypeError"

text \<open>\<^verbatim>\<open>v[0]\<close>. The keys of a dict that came from JSON are strings, so 0 is not among them.\<close>

fun getitem0 :: "json \<Rightarrow> py_error + json" where
  "getitem0 (JArr []) = Inl IndexError"
| "getitem0 (JArr (x # xs)) = Inr x"
| "getitem0 (JStr []) = Inl IndexError"
| "getitem0 (JStr (c # cs)) = Inr (JStr [c])"
| "getitem0 (JObj kvs) = Inl KeyError"
| "getitem0 _ = Inl TypeError"

text \<open>\<^verbatim>\<open>v.split("_")[0]\<close>: the part of a string before its first underscore.\<close>

fun split_underscore_0 :: "json \<Rightarrow> py_error + json" where
  "split_underscore_0 (JStr s) = Inr (JStr (takeWhile (\<lambda>c. c \<noteq> CHR ''_'') s))"
| "split_underscore_0 _ = Inl AttributeError"

text \<open>\<^verbatim>\<open>for f in v\<close>: a list gives its elements, a dict its keys, a string its characters.\<close>

fun py_iter :: "json \<Rightarrow> py_error + json list" where
  "py_iter (JArr xs) = Inr xs"
| "py_iter (JObj kvs) = Inr (map (\<lambda>kv. JStr (fst kv)) kvs)"
| "py_iter (JStr s) = Inr (map (\<lambda>c. JStr [c]) s)"
| "py_iter _ = Inl TypeError"

text \<open>
  Keys of dicts and elements of sets are hashed, which lists and dicts refuse, and are
  compared with \<^verbatim>\<open>==\<close>, under which \<^verbatim>\<open>True\<close>, \<^verbatim>\<open>1\<close> and \<^verbatim>\<open>1.0\<close> are the same key.
\<close>

fun py_hash :: "json \<Rightarrow> py_error + unit" where
  "py_hash (JArr xs) = Inl TypeError"
| "py_hash (JObj kvs) = Inl TypeError"
| "py_hash _ = Inr ()"

fun num_of :: "json \<Rightarrow> real option" where
  "num_of (JBool b) = Some (if b then 1 else 0)"
| "num_of (JInt n) = Some (of_int n)"
| "num_of (JFloat r) = Some r"
| "num_of _ = None"

definition py_eq :: "json \<Rightarrow> json \<Rightarrow> bool" where
  "py_eq a b =
     (case (num_of a, num_of b) of
        (Some x, Some y) \<Rightarrow> x = y
      | (None, None) \<Rightarrow> a = b
      | _ \<Rightarrow> False)"

definition py_in :: "json \<Rightarrow> json list \<Rightarrow> bool" where
  "py_in x xs = list_ex (py_eq x) xs"

section \<open>Timestamp conversion\<close>

text \<open>
  \<^verbatim>\<open>datetime.strptime(v, "%Y-%m-%dT%H:%M:%S.%fZ")\<close> compiles the format to a regular
  expression, matched ignoring case against the whole string:
  \<^verbatim>\<open>\d\d\d\d\<close>, \<^verbatim>\<open>-\<close>, \<^verbatim>\<open>1[0-2]|0[1-9]|[1-9]\<close>, \<^verbatim>\<open>-\<close>, \<^verbatim>\<open>3[0-1]|[1-2]\d|0[1-9]|[1-9]| [1-9]\<close>,
  \<^verbatim>\<open>T\<close>, \<^verbatim>\<open>2[0-3]|[0-1]\d|\d\<close>, \<^verbatim>\<open>:\<close>, \<^verbatim>\<open>[0-5]\d|\d\<close>, \<^verbatim>\<open>:\<close>, \<^verbatim>\<open>6[0-1]|[0-5]\d|\d\<close>, \<^verbatim>\<open>.\<close>,
  \<^verbatim>\<open>[0-9]{1,6}\<close>, \<^verbatim>\<open>Z\<close>. Every numeric field but the blank-padded day is a run of digits
  that ends at a character which is not a digit, so it is the longest run of digits at its
  place. The digits are the ASCII ones (\<^verbatim>\<open>\d\<close> also accepts the decimal digits of other
  scripts, which the timestamps of the stats endpoint do not use).
\<close>

definition is_digit :: "char \<Rightarrow> bool" where
  "is_digit c = (c \<in> set ''0123456789'')"

definition digit_val :: "char \<Rightarrow> nat" where
  "digit_val c = of_char c - 48"

definition int_of_digits :: "string \<Rightarrow> nat" where
  "int_of_digits s = foldl (\<lambda>n c. 10 * n + digit_val c) 0 s"

definition digits_field :: "(nat \<Rightarrow> nat \<Rightarrow> bool) \<Rightarrow> string \<Rightarrow> (nat \<times> string) option" where
  "digits_field ok s =
     (let d = takeWhile is_digit s; n = int_of_digits d
      in if ok (length d) n then Some (n, dropWhile is_digit s) else None)"

definition day_field :: "string \<Rightarrow> (nat \<times> string) option" where
  "day_field s =
     (case s of
        c # d # r \<Rightarrow>
          if c = CHR '' '' then
            (if is_digit d \<and> d \<noteq> CHR ''0'' then Some (digit_val d, r) else None)
          else digits_field (\<lambda>l n. (l = 2 \<and> 1 \<le> n \<and> n \<le> 31) \<or> (l = 1 \<and> 1 \<le> n)) s
      | _ \<Rightarrow> digits_field (\<lambda>l n. (l = 2 \<and> 1 \<le> n \<and> n \<le> 31) \<or> (l = 1 \<and> 1 \<le> n)) s)"

definition expect :: "char list \<Rightarrow> string \<Rightarrow> string option" where
  "expect cs s = (case s of [] \<Rightarrow> None | c # r \<Rightarrow> if c \<in> set cs then Some r else None)"

record datetime =
  dt_year :: nat
  dt_month :: nat
  dt_day :: nat
  dt_hour :: nat
  dt_minute :: nat
  dt_second :: nat
  dt_microsecond :: nat

definition is_leap :: "nat \<Rightarrow> bool" where
  "is_leap y = (y mod 4 = 0 \<and> (y mod 100 \<noteq> 0 \<or> y mod 400 = 0))"

definition days_in_month :: "nat \<Rightarrow> nat \<Rightarrow> nat" where
  "days_in_month y m =
     (if m = 2 \<and> is_leap y then 29
      else [0, 31, 28, 31, 30, 31, 30, 31, 31, 30, 31, 30, 31] ! m)"

text \<open>
  The constructor of \<^verbatim>\<open>datetime\<close> refuses the year 0, a day beyond the month's last and
  the seconds 60 and 61 that the regular expression lets through; every failure of
  \<^verbatim>\<open>strptime\<close> is a \<^verbatim>\<open>ValueError\<close>, here \<open>None\<close>.
\<close>

definition strptime :: "string \<Rightarrow> datetime option" where
  "strptime s =
     Option.bind (digits_field (\<lambda>l n. l = 4) s) (\<lambda>(Y, s).
     Option.bind (expect ''-'' s) (\<lambda>s.
     Option.bind (digits_field (\<lambda>l n. (l = 2 \<and> 1 \<le> n \<and> n \<le> 12) \<or> (l = 1 \<and> 1 \<le> n)) s) (\<lambda>(m, s).
     Option.bind (expect ''-'' s) (\<lambda>s.
     Option.bind (day_field s) (\<lambda>(d, s).
     Option.bind (expect ''Tt'' s) (\<lambda>s.
     Option.bind (digits_field (\<lambda>l n. (l = 2 \<and> n \<le> 23) \<or> l = 1) s) (\<lambda>(H, s).
     Option.bind (expect '':'' s) (\<lambda>s.
     Option.bind (digits_field (\<lambda>l n. (l = 2 \<and> n \<le> 59) \<or> l = 1) s) (\<lambda>(M, s).
     Option.bind (expect '':'' s) (\<lambda>s.
     Option.bind (digits_field (\<lambda>l n. (l = 2 \<and> n \<le> 61) \<or> l = 1) s) (\<lambda>(S, s).
     Option.bind (expect ''.'' s) (\<lambda>s.
     (let f = takeWhile is_digit s in
      if 1 \<le> length f \<and> length f \<le> 6 \<and>
         (dropWhile is_digit s = ''Z'' \<or> dropWhile is_digit s = ''z'') \<and>
         1 \<le> Y \<and> d \<le> days_in_month Y m \<and> S \<le> 59
      then Some \<lparr>dt_year = Y, dt_month = m, dt_day = d, dt_hour = H, dt_minute = M,
                  dt_second = S,
                  dt_microsecond = int_of_digits (f @ replicate (6 - length f) CHR ''0'')\<rparr>
      else None)))))))))))))"

text \<open>The proleptic Gregorian ordinal of a date, day 1 being 0001-01-01.\<close>

definition days_before_year :: "nat \<Rightarrow> nat" where
  "days_before_year year = (let y = year - 1 in y * 365 + y div 4 - y div 100 + y div 400)"

definition days_before_month :: "nat \<Rightarrow> nat \<Rightarrow> nat" where
  "days_before_month year month =
     [0, 0, 31, 59, 90, 120, 151, 181, 212, 243, 273, 304, 334] ! month +
     (if month > 2 \<and> is_leap year then 1 else 0)"

definition ymd2ord :: "nat \<Rightarrow> nat \<Rightarrow> nat \<Rightarrow> nat" where
  "ymd2ord year month day = days_before_year year + days_before_month year month + day"

text \<open>\<^verbatim>\<open>(self - epoch) // timedelta(0, 1)\<close>, with \<^verbatim>\<open>epoch = datetime(1970, 1, 1)\<close>.\<close>

definition seconds_since_epoch :: "datetime \<Rightarrow> int" where
  "seconds_since_epoch dt =
     (int (ymd2ord (dt_year dt) (dt_month dt) (dt_day dt)) - int (ymd2ord 1970 1 1)) * 86400
     + int (dt_hour dt) * 3600 + int (dt_minute dt) * 60 + int (dt_second dt)"

text \<open>
  \<^verbatim>\<open>timestamp()\<close> of the naive \<^verbatim>\<open>datetime\<close> that \<^verbatim>\<open>strptime\<close> returns (the format has no
  \<^verbatim>\<open>%z\<close>, the \<^verbatim>\<open>Z\<close> is a literal): \<^verbatim>\<open>self._mktime() + self.microsecond / 1e6\<close>. The sum
  and the product by 1000 are taken in the reals; the rounding to a double is left out
  (it changes nothing when the fraction of the second is zero). \<open>mktime\<close> is total: the
  error that the library raises for a date outside the range of the platform's clock
  (the first days of the year 1, the last of the year 9999) is not modelled.
\<close>

definition timestamp :: "env \<Rightarrow> datetime \<Rightarrow> real" where
  "timestamp env dt =
     real_of_int (mktime env (seconds_since_epoch dt)) + real (dt_microsecond dt) / 1000000"

fun str_to_timestamp :: "env \<Rightarrow> json \<Rightarrow> py_error + json" where
  "str_to_timestamp env (JStr v) =
     (case strptime v of
        None \<Rightarrow> Inl ValueError
      | Some dt \<Rightarrow> Inr (JFloat (timestamp env dt * 1000)))"
| "str_to_timestamp env _ = Inl TypeError"

section \<open>Families of the stats collector\<close>

subsection \<open>Node information\<close>

definition NodeInfoMetric_init :: family where
  "NodeInfoMetric_init =
     \<lparr>cls = NodeInfoMetric, name = ''saturn_node'', mtype = Info, labelnames = [],
      samples = []\<rparr>"

definition NodeInfoMetric_add :: "env \<Rightarrow> family \<Rightarrow> json \<Rightarrow> py_error + family" where
  "NodeInfoMetric_add env self node =
     py_bind (getitem node ''id'') (\<lambda>v_id.
     py_bind (py_bind (getitem node ''id'') id_short) (\<lambda>v_id_short.
     py_bind (getitem node ''state'') (\<lambda>v_state.
     py_bind (getitem node ''core'') (\<lambda>v_core.
     py_bind (getitem node ''ipAddress'') (\<lambda>v_ip_address.
     py_bind (getitem node ''sunrise'') (\<lambda>v_sunrise.
     py_bind (getitem node ''cassini'') (\<lambda>v_cassini.
     py_bind (py_bind (getitem node ''geoloc'') (\<lambda>g. getitem g ''region'')) (\<lambda>v_region.
     py_bind (py_bind (getitem node ''geoloc'') (\<lambda>g. getitem g ''city'')) (\<lambda>v_city.
     py_bind (py_bind (getitem node ''geoloc'') (\<lambda>g. getitem g ''country'')) (\<lambda>v_country.
     py_bind (py_bind (getitem node ''geoloc'') (\<lambda>g. getitem g ''countryCode''))
       (\<lambda>v_country_code.
     let values =
       [(''id'', v_id),
        (''id_short'', v_id_short),
        (''state'', v_state),
        (''core'', bool_to_str env v_core),
        (''ip_address'', v_ip_address),
        (''sunrise'', bool_to_str env v_sunrise),
        (''cassini'', bool_to_str env v_cassini),
        (''geoloc_region'', v_region),
        (''geoloc_city'', v_city),
        (''geoloc_country'', v_country),
        (''geoloc_country_code'', v_country_code)]
     in
     py_bind (dict_get node ''speedtest'') (\<lambda>speedtest.
     py_bind
       (if truthy speedtest then
          py_bind (py_bind (getitem node ''speedtest'') (\<lambda>s. getitem s ''isp'')) (\<lambda>v_isp.
          py_bind (py_bind (py_bind (getitem node ''speedtest'') (\<lambda>s. getitem s ''server''))
                     (\<lambda>s. getitem s ''location'')) (\<lambda>v_location.
          py_bind (py_bind (py_bind (getitem node ''speedtest'') (\<lambda>s. getitem s ''server''))
                     (\<lambda>s. getitem s ''country'')) (\<lambda>v_server_country.
          Inr (dict_update values
                [(''sppedtest_isp'', v_isp),
                 (''sppedtest_server_location'', v_location),
                 (''sppedtest_server_country'', v_server_country)]))))
        else Inr values)
       (\<lambda>values. Inr (info_add_metric self [] values))))))))))))))"

definition NodeInfoMetric_add_inactive :: "family \<Rightarrow> string \<Rightarrow> family" where
  "NodeInfoMetric_add_inactive self node_id =
     info_add_metric self []
       [(''id'', JStr node_id),
        (''id_short'', JStr (take 8 node_id)),
        (''state'', JStr ''inactive'')]"

subsection \<open>Version and weight\<close>

definition NodeVersionMetric_init :: family where
  "NodeVersionMetric_init =
     \<lparr>cls = NodeVersionMetric, name = ''saturn_node_version'', mtype = Gauge,
      labelnames = [''id''], samples = []\<rparr>"

definition NodeVersionMetric_add :: "family \<Rightarrow> json \<Rightarrow> py_error + family" where
  "NodeVersionMetric_add self node =
     py_bind (py_bind (getitem node ''version'') split_underscore_0) (\<lambda>version.
     py_bind (getitem node ''id'') (\<lambda>i.
     Inr (gauge_add_metric self [i] version)))"

definition NodeWeightMetric_init :: family where
  "NodeWeightMetric_init =
     \<lparr>cls = NodeWeightMetric, name = ''saturn_node_weight'', mtype = Gauge,
      labelnames = [''id''], samples = []\<rparr>"

text \<open>
  The shape of \<^verbatim>\<open>self.add_metric([node["id"]], node[a])\<close> and of
  \<^verbatim>\<open>self.add_metric([node["id"]], node[a][b])\<close>: the label is evaluated first.
\<close>

definition gauge_add_field :: "family \<Rightarrow> json \<Rightarrow> string \<Rightarrow> py_error + family" where
  "gauge_add_field self node a =
     py_bind (getitem node ''id'') (\<lambda>i.
     py_bind (getitem node a) (\<lambda>v.
     Inr (gauge_add_metric self [i] v)))"

definition gauge_add_field2 :: "family \<Rightarrow> json \<Rightarrow> string \<Rightarrow> string \<Rightarrow> py_error + family" where
  "gauge_add_field2 self node a b =
     py_bind (getitem node ''id'') (\<lambda>i.
     py_bind (py_bind (getitem node a) (\<lambda>x. getitem x b)) (\<lambda>v.
     Inr (gauge_add_metric self [i] v)))"

definition counter_add_field2 :: "family \<Rightarrow> json \<Rightarrow> string \<Rightarrow> string \<Rightarrow> py_error + family" where
  "counter_add_field2 self node a b =
     py_bind (getitem node ''id'') (\<lambda>i.
     py_bind (py_bind (getitem node a) (\<lambda>x. getitem x b)) (\<lambda>v.
     Inr (counter_add_metric self [i] v)))"

definition NodeWeightMetric_add :: "family \<Rightarrow> json \<Rightarrow> py_error + family" where
  "NodeWeightMetric_add self node = gauge_add_field self node ''bias''"

subsection \<open>Biases and penalties\<close>

definition NodeBiasMetric_init :: family where
  "NodeBiasMetric_init =
     \<lparr>cls = NodeBiasMetric, name = ''saturn_node_bias'', mtype = Gauge,
      labelnames = [''id'', ''kind''], samples = []\<rparr>"

definition BIASES :: "(string \<times> string) list" where
  "BIASES =
     [(''ageBias'', ''age''),
      (''ttfbBias'', ''ttfb''),
      (''randomBias'', ''random''),
      (''uptimeBias'', ''uptime''),
      (''speedtestBias'', ''speedtest'')]"

definition NodePenaltyMetric_init :: family where
  "NodePenaltyMetric_init =
     \<lparr>cls = NodePenaltyMetric, name = ''saturn_node_penalty'', mtype = Gauge,
      labelnames = [''id'', ''kind''], samples = []\<rparr>"

definition PENALTIES :: "(string \<times> string) list" where
  "PENALTIES =
     [(''speedPenalty'', ''speed''),
      (''cpuLoadPenalty'', ''cpu_load''),
      (''errorRatioPenalty'', ''error_ratio''),
      (''oldVersionPenalty'', ''old_version''),
      (''cacheHitRatioPenalty'', ''cache_hit_ratio''),
      (''dupCacheMissRatioPenalty'', ''dup_cache_miss_ratio''),
      (''healthCheckFailuresPenalty'', ''health_check_failures'')]"

text \<open>
  The loop \<^verbatim>\<open>for k, v in table.items()\<close> that the bias and the penalty family share: both
  read \<^verbatim>\<open>node["biases"].get(k)\<close> and add a sample when the result is not \<^verbatim>\<open>None\<close>.
\<close>

fun biases_loop :: "family \<Rightarrow> json \<Rightarrow> (string \<times> string) list \<Rightarrow> py_error + family" where
  "biases_loop self node [] = Inr self"
| "biases_loop self node ((k, v) # kvs) =
     py_bind (py_bind (getitem node ''biases'') (\<lambda>b. dict_get b k)) (\<lambda>bias.
     py_bind
       (if bias \<noteq> JNull then
          py_bind (getitem node ''id'') (\<lambda>i. Inr (gauge_add_metric self [i, JStr v] bias))
        else Inr self)
       (\<lambda>self'. biases_loop self' node kvs))"

definition NodeBiasMetric_add :: "family \<Rightarrow> json \<Rightarrow> py_error + family" where
  "NodeBiasMetric_add self node = biases_loop self node BIASES"

definition NodePenaltyMetric_add :: "family \<Rightarrow> json \<Rightarrow> py_error + family" where
  "NodePenaltyMetric_add self node = biases_loop self node PENALTIES"

subsection \<open>Weighted ratios\<close>

text \<open>\<^verbatim>\<open>v = node["biases"].get(k)\<close>, then \<^verbatim>\<open>add_metric([node["id"]], v)\<close> unless \<open>v\<close> is \<^verbatim>\<open>None\<close>.\<close>

definition weighted_add :: "family \<Rightarrow> json \<Rightarrow> string \<Rightarrow> py_error + family" where
  "weighted_add self node k =
     py_bind (py_bind (getitem node ''biases'') (\<lambda>b. dict_get b k)) (\<lambda>v.
       if v \<noteq> JNull then
         py_bind (getitem node ''id'') (\<lambda>i. Inr (gauge_add_metric self [i] v))
       else Inr self)"

definition NodeWeightedTTFBMetric_init :: family where
  "NodeWeightedTTFBMetric_init =
     \<lparr>cls = NodeWeightedTTFBMetric, name = ''saturn_node_weighted_ttfb_milliseconds'',
      mtype = Gauge, labelnames = [''id''], samples = []\<rparr>"

definition NodeWeightedTTFBMetric_add :: "family \<Rightarrow> json \<Rightarrow> py_error + family" where
  "NodeWeightedTTFBMetric_add self node = weighted_add self node ''weightedTtfb''"

definition NodeWeightedHitsRatioMetric_init :: family where
  "NodeWeightedHitsRatioMetric_init =
     \<lparr>cls = NodeWeightedHitsRatioMetric, name = ''saturn_node_weighted_hits_ratio'',
      mtype = Gauge, labelnames = [''id''], samples = []\<rparr>"

definition NodeWeightedHitsRatioMetric_add :: "family \<Rightarrow> json \<Rightarrow> py_error + family" where
  "NodeWeightedHitsRatioMetric_add self node = weighted_add self node ''weightedHitsRatio''"

definition NodeWeightedErrorsRatioMetric_init :: family where
  "NodeWeightedErrorsRatioMetric_init =
     \<lparr>cls = NodeWeightedErrorsRatioMetric, name = ''saturn_node_weighted_errors_ratio'',
      mtype = Gauge, labelnames = [''id''], samples = []\<rparr>"

definition NodeWeightedErrorsRatioMetric_add :: "family \<Rightarrow> json \<Rightarrow> py_error + family" where
  "NodeWeightedErrorsRatioMetric_add self node =
     weighted_add self node ''weightedErrorsRatio''"

definition NodeWeightedDupCacheMissRatioMetric_init :: family where
  "NodeWeightedDupCacheMissRatioMetric_init =
     \<lparr>cls = NodeWeightedDupCacheMissRatioMetric,
      name = ''saturn_node_weighted_dup_cache_miss_ratio'',
      mtype = Gauge, labelnames = [''id''], samples = []\<rparr>"

definition NodeWeightedDupCacheMissRatioMetric_add ::
  "family \<Rightarrow> json \<Rightarrow> py_error + family" where
  "NodeWeightedDupCacheMissRatioMetric_add self node =
     weighted_add self node ''weightedDupCacheMissRatio''"

subsection \<open>Registration and creation time\<close>

text \<open>The timestamp is computed before the label \<^verbatim>\<open>node["id"]\<close> is read.\<close>

definition timestamp_add :: "env \<Rightarrow> family \<Rightarrow> json \<Rightarrow> string \<Rightarrow> py_error + family" where
  "timestamp_add env self node k =
     py_bind (py_bind (getitem node k) (str_to_timestamp env)) (\<lambda>ts.
     py_bind (getitem node ''id'') (\<lambda>i.
     Inr (gauge_add_metric self [i] ts)))"

definition NodeLastRegistrationMetric_init :: family where
  "NodeLastRegistrationMetric_init =
     \<lparr>cls = NodeLastRegistrationMetric, name = ''saturn_node_last_registration_timestamp'',
      mtype = Gauge, labelnames = [''id''], samples = []\<rparr>"

definition NodeLastRegistrationMetric_add :: "env \<Rightarrow> family \<Rightarrow> json \<Rightarrow> py_error + family" where
  "NodeLastRegistrationMetric_add env self node =
     timestamp_add env self node ''lastRegistration''"

definition NodeCreationMetric_init :: family where
  "NodeCreationMetric_init =
     \<lparr>cls = NodeCreationMetric, name = ''saturn_node_creation_timestamp'',
      mtype = Gauge, labelnames = [''id''], samples = []\<rparr>"

definition NodeCreationMetric_add :: "env \<Rightarrow> family \<Rightarrow> json \<Rightarrow> py_error + family" where
  "NodeCreationMetric_add env self node = timestamp_add env self node ''createdAt''"

subsection \<open>Disk, memory, CPU and network\<close>

definition NodeDiskTotalMetric_init :: family where
  "NodeDiskTotalMetric_init =
     \<lparr>cls = NodeDiskTotalMetric, name = ''saturn_node_disk_total_megabytes'',
      mtype = Gauge, labelnames = [''id''], samples = []\<rparr>"

definition NodeDiskTotalMetric_add :: "family \<Rightarrow> json \<Rightarrow> py_error + family" where
  "NodeDiskTotalMetric_add self node =
     gauge_add_field2 self node ''diskStats'' ''totalDiskMB''"

definition NodeDiskUsedMetric_init :: family where
  "NodeDiskUsedMetric_init =
     \<lparr>cls = NodeDiskUsedMetric, name = ''saturn_node_disk_used_megabytes'',
      mtype = Gauge, labelnames = [''id''], samples = []\<rparr>"

definition NodeDiskUsedMetric_add :: "family \<Rightarrow> json \<Rightarrow> py_error + family" where
  "NodeDiskUsedMetric_add self node =
     gauge_add_field2 self node ''diskStats'' ''usedDiskMB''"

definition NodeDiskAvailableMetric_init :: family where
  "NodeDiskAvailableMetric_init =
     \<lparr>cls = NodeDiskAvailableMetric, name = ''saturn_node_disk_available_megabytes'',
      mtype = Gauge, labelnames = [''id''], samples = []\<rparr>"

definition NodeDiskAvailableMetric_add :: "family \<Rightarrow> json \<Rightarrow> py_error + family" where
  "NodeDiskAvailableMetric_add self node =
     gauge_add_field2 self node ''diskStats'' ''availableDiskMB''"

definition NodeMemoryTotalMetric_init :: family where
  "NodeMemoryTotalMetric_init =
     \<lparr>cls = NodeMemoryTotalMetric, name = ''saturn_node_memory_total_kilobytes'',
      mtype = Gauge, labelnames = [''id''], samples = []\<rparr>"

definition NodeMemoryTotalMetric_add :: "family \<Rightarrow> json \<Rightarrow> py_error + family" where
  "NodeMemoryTotalMetric_add self node =
     gauge_add_field2 self node ''memoryStats'' ''totalMemoryKB''"

definition NodeMemoryFreeMetric_init :: family where
  "NodeMemoryFreeMetric_init =
     \<lparr>cls = NodeMemoryFreeMetric, name = ''saturn_node_memory_free_kilobytes'',
      mtype = Gauge, labelnames = [''id''], samples = []\<rparr>"

definition NodeMemoryFreeMetric_add :: "family \<Rightarrow> json \<Rightarrow> py_error + family" where
  "NodeMemoryFreeMetric_add self node =
     gauge_add_field2 self node ''memoryStats'' ''freeMemoryKB''"

definition NodeMemoryAvailableMetric_init :: family where
  "NodeMemoryAvailableMetric_init =
     \<lparr>cls = NodeMemoryAvailableMetric, name = ''saturn_node_memory_available_kilobytes'',
      mtype = Gauge, labelnames = [''id''], samples = []\<rparr>"

definition NodeMemoryAvailableMetric_add :: "family \<Rightarrow> json \<Rightarrow> py_error + family" where
  "NodeMemoryAvailableMetric_add self node =
     gauge_add_field2 self node ''memoryStats'' ''availableMemoryKB''"

definition NodeCPUNumberMetric_init :: family where
  "NodeCPUNumberMetric_init =
     \<lparr>cls = NodeCPUNumberMetric, name = ''saturn_node_cpu_number'',
      mtype = Gauge, labelnames = [''id''], samples = []\<rparr>"

definition NodeCPUNumberMetric_add :: "family \<Rightarrow> json \<Rightarrow> py_error + family" where
  "NodeCPUNumberMetric_add self node = gauge_add_field2 self node ''cpuStats'' ''numCPUs''"

definition NodeCPULoadAvgMetric_init :: family where
  "NodeCPULoadAvgMetric_init =
     \<lparr>cls = NodeCPULoadAvgMetric, name = ''saturn_node_cpu_load_avg'',
      mtype = Gauge, labelnames = [''id''], samples = []\<rparr>"

definition NodeCPULoadAvgMetric_add :: "family \<Rightarrow> json \<Rightarrow> py_error + family" where
  "NodeCPULoadAvgMetric_add self node =
     py_bind (getitem node ''id'') (\<lambda>i.
     py_bind (py_bind (py_bind (getitem node ''cpuStats'') (\<lambda>c. getitem c ''loadAvgs''))
                getitem0) (\<lambda>v.
     Inr (gauge_add_metric self [i] v)))"

definition NodeSentBytesTotalMetric_init :: family where
  "NodeSentBytesTotalMetric_init =
     \<lparr>cls = NodeSentBytesTotalMetric, name = ''saturn_node_sent_bytes'',
      mtype = Counter, labelnames = [''id''], samples = []\<rparr>"

definition NodeSentBytesTotalMetric_add :: "family \<Rightarrow> json \<Rightarrow> py_error + family" where
  "NodeSentBytesTotalMetric_add self node =
     counter_add_field2 self node ''nicStats'' ''bytesSent''"

definition NodeReceivedBytesTotalMetric_init :: family where
  "NodeReceivedBytesTotalMetric_init =
     \<lparr>cls = NodeReceivedBytesTotalMetric, name = ''saturn_node_received_bytes'',
      mtype = Counter, labelnames = [''id''], samples = []\<rparr>"

definition NodeReceivedBytesTotalMetric_add :: "family \<Rightarrow> json \<Rightarrow> py_error + family" where
  "NodeReceivedBytesTotalMetric_add self node =
     counter_add_field2 self node ''nicStats'' ''bytesReceived''"

subsection \<open>Speedtest\<close>

text \<open>
  \<^verbatim>\<open>speedtest = node.get("speedtest")\<close>, then, if it is true,
  \<^verbatim>\<open>add_metric([node["id"]], speedtest[a][b])\<close>.
\<close>

definition speedtest_add :: "family \<Rightarrow> json \<Rightarrow> string \<Rightarrow> string \<Rightarrow> py_error + family" where
  "speedtest_add self node a b =
     py_bind (dict_get node ''speedtest'') (\<lambda>speedtest.
       if truthy speedtest then
         py_bind (getitem node ''id'') (\<lambda>i.
         py_bind (py_bind (getitem speedtest a) (\<lambda>x. getitem x b)) (\<lambda>v.
         Inr (gauge_add_metric self [i] v)))
       else Inr self)"

definition NodeSpeedtestUploadBandwidthMetric_init :: family where
  "NodeSpeedtestUploadBandwidthMetric_init =
     \<lparr>cls = NodeSpeedtestUploadBandwidthMetric,
      name = ''saturn_node_speedtest_upload_bandwidth'',
      mtype = Gauge, labelnames = [''id''], samples = []\<rparr>"

definition NodeSpeedtestUploadBandwidthMetric_add ::
  "family \<Rightarrow> json \<Rightarrow> py_error + family" where
  "NodeSpeedtestUploadBandwidthMetric_add self node =
     speedtest_add self node ''upload'' ''bandwidth''"

definition NodeSpeedtestDownloadBandwidthMetric_init :: family where
  "NodeSpeedtestDownloadBandwidthMetric_init =
     \<lparr>cls = NodeSpeedtestDownloadBandwidthMetric,
      name = ''saturn_node_speedtest_download_bandwidth'',
      mtype = Gauge, labelnames = [''id''], samples = []\<rparr>"

definition NodeSpeedtestDownloadBandwidthMetric_add ::
  "family \<Rightarrow> json \<Rightarrow> py_error + family" where
  "NodeSpeedtestDownloadBandwidthMetric_add self node =
     speedtest_add self node ''download'' ''bandwidth''"

definition NodeSpeedtestPingLatencyMetric_init :: family where
  "NodeSpeedtestPingLatencyMetric_init =
     \<lparr>cls = NodeSpeedtestPingLatencyMetric,
      name = ''saturn_node_speedtest_ping_latency_milliseconds'',
      mtype = Gauge, labelnames = [''id''], samples = []\<rparr>"

definition NodeSpeedtestPingLatencyMetric_add :: "family \<Rightarrow> json \<Rightarrow> py_error + family" where
  "NodeSpeedtestPingLatencyMetric_add self node =
     speedtest_add self node ''ping'' ''latency''"

subsection \<open>Latency quantiles\<close>

definition NodeResponseDurationMetric_init :: family where
  "NodeResponseDurationMetric_init =
     \<lparr>cls = NodeResponseDurationMetric,
      name = ''saturn_node_response_duration_milliseconds'', mtype = Gauge,
      labelnames = [''id'', ''quantile''], samples = []\<rparr>"

text \<open>
  The loop runs over \<^verbatim>\<open>(0.01, 0.05, 0.5, 0.95, 0.99)\<close>. Each entry is kept as the pair of
  \<^verbatim>\<open>str(q)\<close> and \<^verbatim>\<open>int(q * 100)\<close>, the only two uses of \<open>q\<close>; in IEEE double arithmetic
  the five products are exactly 1.0, 5.0, 50.0, 95.0 and 99.0.
\<close>

definition quantiles :: "(string \<times> nat) list" where
  "quantiles = [(''0.01'', 1), (''0.05'', 5), (''0.5'', 50), (''0.95'', 95), (''0.99'', 99)]"

definition quantile_field :: "nat \<Rightarrow> string" where
  "quantile_field p = ''p'' @ str_nat p @ ''_1h''"

text \<open>
  The body of the \<^verbatim>\<open>for\<close> loop: \<^verbatim>\<open>node["id"]\<close> is evaluated before the field of \<open>ttfb\<close>,
  both inside the \<^verbatim>\<open>try\<close>, and a \<^verbatim>\<open>KeyError\<close> from either returns from \<^verbatim>\<open>add\<close>.
\<close>

fun NodeResponseDurationMetric_loop ::
  "family \<Rightarrow> json \<Rightarrow> json \<Rightarrow> (string \<times> nat) list \<Rightarrow> py_error + family" where
  "NodeResponseDurationMetric_loop self node ttfb [] = Inr self"
| "NodeResponseDurationMetric_loop self node ttfb ((q, p) # qs) =
     (case py_bind (getitem node ''id'') (\<lambda>i.
           py_bind (getitem ttfb (quantile_field p)) (\<lambda>v.
           Inr (gauge_add_metric self [i, JStr q] v))) of
        Inl KeyError \<Rightarrow> Inr self
      | Inl e \<Rightarrow> Inl e
      | Inr self' \<Rightarrow> NodeResponseDurationMetric_loop self' node ttfb qs)"

definition NodeResponseDurationMetric_add :: "family \<Rightarrow> json \<Rightarrow> py_error + family" where
  "NodeResponseDurationMetric_add self node =
     py_bind (dict_get node ''ttfbStats'') (\<lambda>ttfb.
       if \<not> truthy ttfb then Inr self
       else NodeResponseDurationMetric_loop self node ttfb quantiles)"

subsection \<open>Request outcomes\<close>

definition NodeRequestsMetric_init :: family where
  "NodeRequestsMetric_init =
     \<lparr>cls = NodeRequestsMetric, name = ''saturn_node_requests'', mtype = Gauge,
      labelnames = [''id'', ''result''], samples = []\<rparr>"

definition NodeRequestsMetric_add :: "family \<Rightarrow> json \<Rightarrow> py_error + family" where
  "NodeRequestsMetric_add self node =
     py_bind (dict_get node ''ttfbStats'') (\<lambda>ttfb.
       if \<not> truthy ttfb then Inr self
       else
         (case py_bind (getitem ttfb ''reqs_served_1h'') (\<lambda>ok.
               py_bind (getitem ttfb ''hits_1h'') (\<lambda>hits.
               py_bind (getitem ttfb ''errors_1h'') (\<lambda>errors.
               py_bind (getitem ttfb ''slow_hits_1h'') (\<lambda>slow_hits.
               Inr (ok, hits, errors, slow_hits))))) of
            Inl KeyError \<Rightarrow> Inr self
          | Inl e \<Rightarrow> Inl e
          | Inr (ok, hits, errors, slow_hits) \<Rightarrow>
              py_bind (getitem node ''id'') (\<lambda>i1.
              py_bind (getitem node ''id'') (\<lambda>i2.
              py_bind (getitem node ''id'') (\<lambda>i3.
              py_bind (getitem node ''id'') (\<lambda>i4.
              Inr (gauge_add_metric
                    (gauge_add_metric
                      (gauge_add_metric
                        (gauge_add_metric self [i1, JStr ''ok''] ok)
                        [i2, JStr ''ok_hit''] hits)
                      [i3, JStr ''error''] errors)
                    [i4, JStr ''ok_slow_hit''] slow_hits)))))))"

subsection \<open>Health check failures\<close>

definition NodeHealthCheckFailuresMetric_init :: family where
  "NodeHealthCheckFailuresMetric_init =
     \<lparr>cls = NodeHealthCheckFailuresMetric, name = ''saturn_node_health_check_failures'',
      mtype = Gauge, labelnames = [''id'', ''error''], samples = []\<rparr>"

text \<open>
  \<^verbatim>\<open>errors[k] += 1\<close> on a \<^verbatim>\<open>defaultdict(int)\<close>: a new key is appended with the count 1,
  a key that is there keeps its place.
\<close>

fun defaultdict_incr :: "(json \<times> int) list \<Rightarrow> json \<Rightarrow> (json \<times> int) list" where
  "defaultdict_incr [] k = [(k, 1)]"
| "defaultdict_incr ((k', n) # kvs) k =
     (if py_eq k' k then (k', n + 1) # kvs else (k', n) # defaultdict_incr kvs k)"

fun count_errors :: "(json \<times> int) list \<Rightarrow> json list \<Rightarrow> py_error + (json \<times> int) list" where
  "count_errors errors [] = Inr errors"
| "count_errors errors (f # fs) =
     py_bind (getitem f ''error'') (\<lambda>k.
     py_bind (py_hash k) (\<lambda>_.
     count_errors (defaultdict_incr errors k) fs))"

fun emit_errors :: "family \<Rightarrow> json \<Rightarrow> (json \<times> int) list \<Rightarrow> py_error + family" where
  "emit_errors self node [] = Inr self"
| "emit_errors self node ((k, v) # kvs) =
     py_bind (getitem node ''id'') (\<lambda>i.
     emit_errors (gauge_add_metric self [i, k] (JInt v)) node kvs)"

definition NodeHealthCheckFailuresMetric_add :: "family \<Rightarrow> json \<Rightarrow> py_error + family" where
  "NodeHealthCheckFailuresMetric_add self node =
     py_bind (dict_get node ''HealthCheckFailures'') (\<lambda>failures.
       if \<not> truthy failures then
         py_bind (getitem node ''id'') (\<lambda>i. Inr (gauge_add_metric self [i] (JInt 0)))
       else
         py_bind (py_iter failures) (\<lambda>fs.
         py_bind (count_errors [] fs) (\<lambda>errors.
         emit_errors self node errors)))"

section \<open>Families of the earnings collector\<close>

definition NodePayoutInfoMetric_init :: family where
  "NodePayoutInfoMetric_init =
     \<lparr>cls = NodePayoutInfoMetric, name = ''saturn_node_payout'', mtype = Info,
      labelnames = [], samples = []\<rparr>"

definition NodePayoutInfoMetric_add :: "family \<Rightarrow> json \<Rightarrow> py_error + family" where
  "NodePayoutInfoMetric_add self node =
     py_bind (getitem node ''nodeId'') (\<lambda>i.
     py_bind (getitem node ''payoutStatus'') (\<lambda>status.
     Inr (info_add_metric self [] [(''id'', i), (''status'', status)])))"

definition NodeEstimatedEarningsMetric_init :: family where
  "NodeEstimatedEarningsMetric_init =
     \<lparr>cls = NodeEstimatedEarningsMetric, name = ''saturn_node_estimated_earnings_fil'',
      mtype = Counter, labelnames = [''id''], samples = []\<rparr>"

definition NodeEstimatedEarningsMetric_add :: "family \<Rightarrow> json \<Rightarrow> py_error + family" where
  "NodeEstimatedEarningsMetric_add self node =
     py_bind (dict_get node ''filAmount'') (\<lambda>fil_amount.
       if fil_amount \<noteq> JNull then
         py_bind (getitem node ''nodeId'') (\<lambda>i.
         Inr (counter_add_metric self [i] fil_amount))
       else Inr self)"

definition NodeUptimeCompletionMetric_init :: family where
  "NodeUptimeCompletionMetric_init =
     \<lparr>cls = NodeUptimeCompletionMetric, name = ''saturn_node_uptime_completion_ratio'',
      mtype = Gauge, labelnames = [''id''], samples = []\<rparr>"

definition NodeUptimeCompletionMetric_add :: "family \<Rightarrow> json \<Rightarrow> py_error + family" where
  "NodeUptimeCompletionMetric_add self node =
     py_bind (dict_get node ''uptimeCompletion'') (\<lambda>uptime_completion.
       if uptime_completion \<noteq> JNull then
         py_bind (getitem node ''nodeId'') (\<lambda>i.
         Inr (gauge_add_metric self [i] uptime_completion))
       else Inr self)"

definition NodeRetrievalsMetric_init :: family where
  "NodeRetrievalsMetric_init =
     \<lparr>cls = NodeRetrievalsMetric, name = ''saturn_node_retrievals'',
      mtype = Counter, labelnames = [''id''], samples = []\<rparr>"

definition NodeRetrievalsMetric_add :: "family \<Rightarrow> json \<Rightarrow> py_error + family" where
  "NodeRetrievalsMetric_add self node =
     py_bind (dict_get node ''numRequests'') (\<lambda>num_requests.
       if num_requests \<noteq> JNull then
         py_bind (getitem node ''nodeId'') (\<lambda>i.
         Inr (counter_add_metric self [i] num_requests))
       else Inr self)"

definition NodeBandwidthServedMetric_init :: family where
  "NodeBandwidthServedMetric_init =
     \<lparr>cls = NodeBandwidthServedMetric, name = ''saturn_node_bandwidth_served_bytes'',
      mtype = Counter, labelnames = [''id''], samples = []\<rparr>"

definition NodeBandwidthServedMetric_add :: "family \<Rightarrow> json \<Rightarrow> py_error + family" where
  "NodeBandwidthServedMetric_add self node =
     py_bind (dict_get node ''numBytes'') (\<lambda>num_bytes.
       if num_bytes \<noteq> JNull then
         py_bind (getitem node ''nodeId'') (\<lambda>i.
         Inr (counter_add_metric self [i] num_bytes))
       else Inr self)"

section \<open>Families of the requirements collector\<close>

text \<open>\<^verbatim>\<open>self.add_metric([], requirements[k])\<close>; these families have no label names.\<close>

definition requirement_add :: "family \<Rightarrow> json \<Rightarrow> string \<Rightarrow> py_error + family" where
  "requirement_add self requirements k =
     py_bind (getitem requirements k) (\<lambda>v. Inr (gauge_add_metric self [] v))"

definition NodeRequirementsMinCPUCoresMetric_init :: family where
  "NodeRequirementsMinCPUCoresMetric_init =
     \<lparr>cls = NodeRequirementsMinCPUCoresMetric,
      name = ''saturn_node_requirements_min_cpu_cores'',
      mtype = Gauge, labelnames = [], samples = []\<rparr>"

definition NodeRequirementsMinMemoryMetric_init :: family where
  "NodeRequirementsMinMemoryMetric_init =
     \<lparr>cls = NodeRequirementsMinMemoryMetric,
      name = ''saturn_node_requirements_min_memory_gigabytes'',
      mtype = Gauge, labelnames = [], samples = []\<rparr>"

definition NodeRequirementsMinUploadSpeedMetric_init :: family where
  "NodeRequirementsMinUploadSpeedMetric_init =
     \<lparr>cls = NodeRequirementsMinUploadSpeedMetric,
      name = ''saturn_node_requirements_min_upload_speed_mbps'',
      mtype = Gauge, labelnames = [], samples = []\<rparr>"

definition NodeRequirementsMinDownloadSpeedMetric_init :: family where
  "NodeRequirementsMinDownloadSpeedMetric_init =
     \<lparr>cls = NodeRequirementsMinDownloadSpeedMetric,
      name = ''saturn_node_requirements_min_download_speed_mbps'',
      mtype = Gauge, labelnames = [], samples = []\<rparr>"

definition NodeRequirementsMinDiskMetric_init :: family where
  "NodeRequirementsMinDiskMetric_init =
     \<lparr>cls = NodeRequirementsMinDiskMetric,
      name = ''saturn_node_requirements_min_disk_gigabytes'',
      mtype = Gauge, labelnames = [], samples = []\<rparr>"

definition NodeRequirementsLastVersionMetric_init :: family where
  "NodeRequirementsLastVersionMetric_init =
     \<lparr>cls = NodeRequirementsLastVersionMetric,
      name = ''saturn_node_requirements_last_version'',
      mtype = Gauge, labelnames = [], samples = []\<rparr>"

definition NodeRequirementsMinVersionMetric_init :: family where
  "NodeRequirementsMinVersionMetric_init =
     \<lparr>cls = NodeRequirementsMinVersionMetric,
      name = ''saturn_node_requirements_min_version'',
      mtype = Gauge, labelnames = [], samples = []\<rparr>"

definition NodeRequirementsMinCPUCoresMetric_add :: "family \<Rightarrow> json \<Rightarrow> py_error + family" where
  "NodeRequirementsMinCPUCoresMetric_add self requirements = requirement_add self requirements ''minCPUCores''"

definition NodeRequirementsMinMemoryMetric_add :: "family \<Rightarrow> json \<Rightarrow> py_error + family" where
  "NodeRequirementsMinMemoryMetric_add self requirements = requirement_add self requirements ''minMemoryGB''"

definition NodeRequirementsMinUploadSpeedMetric_add :: "family \<Rightarrow> json \<Rightarrow> py_error + family" where
  "NodeRequirementsMinUploadSpeedMetric_add self requirements = requirement_add self requirements ''minUploadSpeedMbps''"

definition NodeRequirementsMinDownloadSpeedMetric_add :: "family \<Rightarrow> json \<Rightarrow> py_error + family" where
  "NodeRequirementsMinDownloadSpeedMetric_add self requirements = requirement_add self requirements ''minDownloadSpeedMbps''"

definition NodeRequirementsMinDiskMetric_add :: "family \<Rightarrow> json \<Rightarrow> py_error + family" where
  "NodeRequirementsMinDiskMetric_add self requirements = requirement_add self requirements ''minDiskGB''"

definition NodeRequirementsLastVersionMetric_add :: "family \<Rightarrow> json \<Rightarrow> py_error + family" where
  "NodeRequirementsLastVersionMetric_add self requirements = requirement_add self requirements ''lastVersion''"

definition NodeRequirementsMinVersionMetric_add :: "family \<Rightarrow> json \<Rightarrow> py_error + family" where
  "NodeRequirementsMinVersionMetric_add self requirements = requirement_add self requirements ''minVersion''"

section \<open>Collectors\<close>

text \<open>\<^verbatim>\<open>m.add(node)\<close>: the class of the object selects the method.\<close>

definition add :: "env \<Rightarrow> family \<Rightarrow> json \<Rightarrow> py_error + family" where
  "add env m node =
     (case cls m of
        NodeInfoMetric \<Rightarrow> NodeInfoMetric_add env m node
      | NodePayoutInfoMetric \<Rightarrow> NodePayoutInfoMetric_add m node
      | NodeVersionMetric \<Rightarrow> NodeVersionMetric_add m node
      | NodeWeightMetric \<Rightarrow> NodeWeightMetric_add m node
      | NodeBiasMetric \<Rightarrow> NodeBiasMetric_add m node
      | NodePenaltyMetric \<Rightarrow> NodePenaltyMetric_add m node
      | NodeWeightedTTFBMetric \<Rightarrow> NodeWeightedTTFBMetric_add m node
      | NodeWeightedHitsRatioMetric \<Rightarrow> NodeWeightedHitsRatioMetric_add m node
      | NodeWeightedErrorsRatioMetric \<Rightarrow> NodeWeightedErrorsRatioMetric_add m node
      | NodeWeightedDupCacheMissRatioMetric \<Rightarrow> NodeWeightedDupCacheMissRatioMetric_add m node
      | NodeLastRegistrationMetric \<Rightarrow> NodeLastRegistrationMetric_add env m node
      | NodeCreationMetric \<Rightarrow> NodeCreationMetric_add env m node
      | NodeDiskTotalMetric \<Rightarrow> NodeDiskTotalMetric_add m node
      | NodeDiskUsedMetric \<Rightarrow> NodeDiskUsedMetric_add m node
      | NodeDiskAvailableMetric \<Rightarrow> NodeDiskAvailableMetric_add m node
      | NodeMemoryTotalMetric \<Rightarrow> NodeMemoryTotalMetric_add m node
      | NodeMemoryFreeMetric \<Rightarrow> NodeMemoryFreeMetric_add m node
      | NodeMemoryAvailableMetric \<Rightarrow> NodeMemoryAvailableMetric_add m node
      | NodeCPUNumberMetric \<Rightarrow> NodeCPUNumberMetric_add m node
      | NodeCPULoadAvgMetric \<Rightarrow> NodeCPULoadAvgMetric_add m node
      | NodeSentBytesTotalMetric \<Rightarrow> NodeSentBytesTotalMetric_add m node
      | NodeSpeedtestUploadBandwidthMetric \<Rightarrow> NodeSpeedtestUploadBandwidthMetric_add m node
      | NodeSpeedtestDownloadBandwidthMetric \<Rightarrow>
          NodeSpeedtestDownloadBandwidthMetric_add m node
      | NodeSpeedtestPingLatencyMetric \<Rightarrow> NodeSpeedtestPingLatencyMetric_add m node
      | NodeReceivedBytesTotalMetric \<Rightarrow> NodeReceivedBytesTotalMetric_add m node
      | NodeEstimatedEarningsMetric \<Rightarrow> NodeEstimatedEarningsMetric_add m node
      | NodeUptimeCompletionMetric \<Rightarrow> NodeUptimeCompletionMetric_add m node
      | NodeRetrievalsMetric \<Rightarrow> NodeRetrievalsMetric_add m node
      | NodeBandwidthServedMetric \<Rightarrow> NodeBandwidthServedMetric_add m node
      | NodeResponseDurationMetric \<Rightarrow> NodeResponseDurationMetric_add m node
      | NodeRequestsMetric \<Rightarrow> NodeRequestsMetric_add m node
      | NodeHealthCheckFailuresMetric \<Rightarrow> NodeHealthCheckFailuresMetric_add m node
      | NodeRequirementsMinCPUCoresMetric \<Rightarrow> NodeRequirementsMinCPUCoresMetric_add m node
      | NodeRequirementsMinMemoryMetric \<Rightarrow> NodeRequirementsMinMemoryMetric_add m node
      | NodeRequirementsMinUploadSpeedMetric \<Rightarrow> NodeRequirementsMinUploadSpeedMetric_add m node
      | NodeRequirementsMinDownloadSpeedMetric \<Rightarrow> NodeRequirementsMinDownloadSpeedMetric_add m node
      | NodeRequirementsMinDiskMetric \<Rightarrow> NodeRequirementsMinDiskMetric_add m node
      | NodeRequirementsLastVersionMetric \<Rightarrow> NodeRequirementsLastVersionMetric_add m node
      | NodeRequirementsMinVersionMetric \<Rightarrow> NodeRequirementsMinVersionMetric_add m node)"

text \<open>\<^verbatim>\<open>for m in metrics: m.add(node)\<close>; an exception leaves the loop and the caller.\<close>

fun add_all :: "env \<Rightarrow> family list \<Rightarrow> json \<Rightarrow> py_error + family list" where
  "add_all env [] node = Inr []"
| "add_all env (m # ms) node =
     py_bind (add env m node) (\<lambda>m'.
     py_bind (add_all env ms node) (\<lambda>ms'.
     Inr (m' # ms')))"

subsection \<open>Stats\<close>

text \<open>
  \<^verbatim>\<open>self._node_ids = frozenset(node_ids)\<close>: the set is kept as the list of its elements
  without repetition; membership and difference do not depend on the order of the list,
  and iteration goes through \<open>set_iter\<close>. The identifiers are the lines of the nodes file,
  strings.
\<close>

record StatsCollector =
  node_ids :: "string list"

definition StatsCollector_init :: "string list \<Rightarrow> StatsCollector" where
  "StatsCollector_init ids = \<lparr>node_ids = remdups ids\<rparr>"

definition StatsCollector_metrics :: "family list" where
  "StatsCollector_metrics =
     [NodeInfoMetric_init,
      NodeVersionMetric_init,
      NodeWeightMetric_init,
      NodeBiasMetric_init,
      NodePenaltyMetric_init,
      NodeWeightedTTFBMetric_init,
      NodeWeightedHitsRatioMetric_init,
      NodeWeightedErrorsRatioMetric_init,
      NodeWeightedDupCacheMissRatioMetric_init,
      NodeLastRegistrationMetric_init,
      NodeCreationMetric_init,
      NodeDiskTotalMetric_init,
      NodeDiskUsedMetric_init,
      NodeDiskAvailableMetric_init,
      NodeMemoryTotalMetric_init,
      NodeMemoryFreeMetric_init,
      NodeMemoryAvailableMetric_init,
      NodeCPUNumberMetric_init,
      NodeCPULoadAvgMetric_init,
      NodeResponseDurationMetric_init,
      NodeRequestsMetric_init,
      NodeHealthCheckFailuresMetric_init,
      NodeSentBytesTotalMetric_init,
      NodeReceivedBytesTotalMetric_init,
      NodeSpeedtestUploadBandwidthMetric_init,
      NodeSpeedtestDownloadBandwidthMetric_init,
      NodeSpeedtestPingLatencyMetric_init]"

text \<open>
  \<^verbatim>\<open>self._node_ids and node[key] not in self._node_ids\<close>, the test before \<^verbatim>\<open>continue\<close>:
  the identifier is read and hashed only when the allow-list is not empty.
\<close>

definition filtered_out :: "string list \<Rightarrow> json \<Rightarrow> string \<Rightarrow> py_error + bool" where
  "filtered_out ids node key =
     (if ids \<noteq> [] then
        py_bind (getitem node key) (\<lambda>i.
        py_bind (py_hash i) (\<lambda>_.
        Inr (\<not> py_in i (map JStr ids))))
      else Inr False)"

text \<open>\<^verbatim>\<open>found.add(x)\<close> on the set \<open>found\<close>, kept as the list of its elements.\<close>

definition set_add :: "json list \<Rightarrow> json \<Rightarrow> json list" where
  "set_add found x = (if py_in x found then found else found @ [x])"

text \<open>The loop \<^verbatim>\<open>for node in stats\<close>, on the local state \<open>found\<close> and the families.\<close>

fun stats_loop ::
  "env \<Rightarrow> StatsCollector \<Rightarrow> json list \<Rightarrow> family list \<Rightarrow> json list \<Rightarrow>
   py_error + (json list \<times> family list)" where
  "stats_loop env self found metrics [] = Inr (found, metrics)"
| "stats_loop env self found metrics (node # stats) =
     py_bind (filtered_out (node_ids self) node ''id'') (\<lambda>skip.
       if skip then stats_loop env self found metrics stats
       else
         py_bind (getitem node ''id'') (\<lambda>i.
         py_bind (py_hash i) (\<lambda>_.
         py_bind (add_all env metrics node) (\<lambda>metrics'.
         stats_loop env self (set_add found i) metrics' stats))))"

text \<open>
  \<^verbatim>\<open>for i in self._node_ids - found: info.add_inactive(i)\<close>, where \<open>info\<close> is the first
  family of the tuple \<open>metrics\<close>.
\<close>

definition add_inactive_all :: "env \<Rightarrow> StatsCollector \<Rightarrow> json list \<Rightarrow> family list \<Rightarrow> family list" where
  "add_inactive_all env self found metrics =
     (case metrics of
        [] \<Rightarrow> []
      | info # rest \<Rightarrow>
          foldl NodeInfoMetric_add_inactive info
            (set_iter env (filter (\<lambda>i. \<not> py_in (JStr i) found) (node_ids self))) # rest)"

definition node_metrics_from_stats ::
  "env \<Rightarrow> StatsCollector \<Rightarrow> json list \<Rightarrow> py_error + family list" where
  "node_metrics_from_stats env self stats =
     py_bind (stats_loop env self [] StatsCollector_metrics stats) (\<lambda>(found, metrics).
     Inr (add_inactive_all env self found metrics))"

subsection \<open>Earnings and retrievals\<close>

text \<open>The start time of the collector is used by the request only, and is left out.\<close>

record EarningsAndRetrievalsCollector =
  earnings_node_ids :: "string list"

definition EarningsAndRetrievalsCollector_init ::
  "string list \<Rightarrow> EarningsAndRetrievalsCollector" where
  "EarningsAndRetrievalsCollector_init ids = \<lparr>earnings_node_ids = remdups ids\<rparr>"

definition EarningsAndRetrievalsCollector_metrics :: "family list" where
  "EarningsAndRetrievalsCollector_metrics =
     [NodePayoutInfoMetric_init,
      NodeEstimatedEarningsMetric_init,
      NodeUptimeCompletionMetric_init,
      NodeRetrievalsMetric_init,
      NodeBandwidthServedMetric_init]"

fun earnings_loop ::
  "env \<Rightarrow> EarningsAndRetrievalsCollector \<Rightarrow> family list \<Rightarrow> json list \<Rightarrow>
   py_error + family list" where
  "earnings_loop env self metrics [] = Inr metrics"
| "earnings_loop env self metrics (node # earnings) =
     py_bind (filtered_out (earnings_node_ids self) node ''nodeId'') (\<lambda>skip.
       if skip then earnings_loop env self metrics earnings
       else
         py_bind (add_all env metrics node) (\<lambda>metrics'.
         earnings_loop env self metrics' earnings))"

definition node_earnings_and_retrievals_metrics ::
  "env \<Rightarrow> EarningsAndRetrievalsCollector \<Rightarrow> json list \<Rightarrow> py_error + family list" where
  "node_earnings_and_retrievals_metrics env self earnings =
     earnings_loop env self EarningsAndRetrievalsCollector_metrics earnings"

subsection \<open>Requirements\<close>

definition RequirementsCollector_metrics :: "family list" where
  "RequirementsCollector_metrics =
     [NodeRequirementsMinCPUCoresMetric_init,
      NodeRequirementsMinMemoryMetric_init,
      NodeRequirementsMinUploadSpeedMetric_init,
      NodeRequirementsMinDownloadSpeedMetric_init,
      NodeRequirementsMinDiskMetric_init,
      NodeRequirementsLastVersionMetric_init,
      NodeRequirementsMinVersionMetric_init]"

definition node_requirements_metrics :: "env \<Rightarrow> json \<Rightarrow> py_error + family list" where
  "node_requirements_metrics env requirements =
     add_all env RequirementsCollector_metrics requirements"

section \<open>The stats collector on a store of objects\<close>

text \<open>
  The metric families are Python objects. A constructor call such as
  \<^verbatim>\<open>NodeInfoMetric()\<close> allocates a new object, \<^verbatim>\<open>m.add(node)\<close> and
  \<^verbatim>\<open>info.add_inactive(i)\<close> change the object they are called on, and the tuple \<open>metrics\<close>
  and the variable \<open>info\<close> hold references. Here the store is the list of all objects
  allocated so far in the process, by whatever call, and a reference is an index into it.
  A function on the store returns the store it leaves behind, also when it raises: the
  objects of a call that raised stay in the store, with the samples added before the
  \<^verbatim>\<open>add\<close> that raised (what that last \<^verbatim>\<open>add\<close> had appended itself is not kept).
\<close>

type_synonym ref = nat

type_synonym store = "family list"

definition new_object :: "family \<Rightarrow> store \<Rightarrow> ref \<times> store" where
  "new_object m s = (length s, s @ [m])"

text \<open>The constructor calls of a tuple display, from left to right.\<close>

fun new_objects :: "family list \<Rightarrow> store \<Rightarrow> ref list \<times> store" where
  "new_objects [] s = ([], s)"
| "new_objects (m # ms) s =
     (case new_object m s of
        (r, s1) \<Rightarrow> (case new_objects ms s1 of (rs, s2) \<Rightarrow> (r # rs, s2)))"

text \<open>\<^verbatim>\<open>for m in metrics: m.add(node)\<close> on references.\<close>

fun add_all_st :: "env \<Rightarrow> ref list \<Rightarrow> json \<Rightarrow> store \<Rightarrow> (py_error + unit) \<times> store" where
  "add_all_st env [] node s = (Inr (), s)"
| "add_all_st env (r # rs) node s =
     (case add env (s ! r) node of
        Inl e \<Rightarrow> (Inl e, s)
      | Inr m' \<Rightarrow> add_all_st env rs node (s[r := m']))"

fun stats_loop_st ::
  "env \<Rightarrow> StatsCollector \<Rightarrow> json list \<Rightarrow> ref list \<Rightarrow> json list \<Rightarrow> store \<Rightarrow>
   (py_error + json list) \<times> store" where
  "stats_loop_st env self found metrics [] s = (Inr found, s)"
| "stats_loop_st env self found metrics (node # stats) s =
     (case filtered_out (node_ids self) node ''id'' of
        Inl e \<Rightarrow> (Inl e, s)
      | Inr skip \<Rightarrow>
          if skip then stats_loop_st env self found metrics stats s
          else
            (case py_bind (getitem node ''id'') (\<lambda>i. py_bind (py_hash i) (\<lambda>_. Inr i)) of
               Inl e \<Rightarrow> (Inl e, s)
             | Inr i \<Rightarrow>
                 (case add_all_st env metrics node s of
                    (Inl e, s') \<Rightarrow> (Inl e, s')
                  | (Inr _, s') \<Rightarrow>
                      stats_loop_st env self (set_add found i) metrics stats s')))"

text \<open>
  \<^verbatim>\<open>_node_metrics_from_stats\<close>: the 27 constructor calls, \<open>info\<close> being the first object
  and the first element of the tuple; the loop over the records; \<^verbatim>\<open>add_inactive\<close> on
  \<open>info\<close> for each unmatched identifier; the tuple of references is returned.
\<close>

definition node_metrics_from_stats_st ::
  "env \<Rightarrow> StatsCollector \<Rightarrow> json list \<Rightarrow> store \<Rightarrow> (py_error + ref list) \<times> store" where
  "node_metrics_from_stats_st env self stats s =
     (case new_objects StatsCollector_metrics s of
        (metrics, s0) \<Rightarrow>
          (case stats_loop_st env self [] metrics stats s0 of
             (Inl e, s1) \<Rightarrow> (Inl e, s1)
           | (Inr found, s1) \<Rightarrow>
               (Inr metrics,
                foldl (\<lambda>s i. s[hd metrics := NodeInfoMetric_add_inactive (s ! hd metrics) i]) s1
                  (set_iter env
                     (filter (\<lambda>i. \<not> py_in (JStr i) found) (node_ids self))))))"

text \<open>What the caller finds behind a result: the error, or the objects of the tuple.\<close>

fun deref :: "store \<Rightarrow> py_error + ref list \<Rightarrow> py_error + family list" where
  "deref s (Inl e) = Inl e"
| "deref s (Inr rs) = Inr (map (\<lambda>r. s ! r) rs)"

section \<open>The snapshot assembly in the words of the specification\<close>

text \<open>
  The node filter of the specification: an identifier matches when the configured
  allow-list is empty or contains it, and the unmatched identifiers are the configured
  ones that were not observed.
\<close>

definition NodeFilter_matches :: "string list \<Rightarrow> string \<Rightarrow> bool" where
  "NodeFilter_matches allow i = (allow = [] \<or> i \<in> set allow)"

definition NodeFilter_unmatched :: "string list \<Rightarrow> string list \<Rightarrow> string list" where
  "NodeFilter_unmatched allow observed = filter (\<lambda>i. i \<notin> set observed) allow"

text \<open>
  The projection of a list of records: every family's \<^verbatim>\<open>add\<close> on each record, the
  records in fetch order and the families in their declared order.
\<close>

fun project_all :: "env \<Rightarrow> family list \<Rightarrow> json list \<Rightarrow> py_error + family list" where
  "project_all env metrics [] = Inr metrics"
| "project_all env metrics (node # nodes) =
     py_bind (add_all env metrics node) (\<lambda>metrics'. project_all env metrics' nodes)"

text \<open>The synthesized series of an identifier that was configured and not observed.\<close>

definition inactive_sample :: "string \<Rightarrow> sample" where
  "inactive_sample i =
     \<lparr>s_name = ''saturn_node_info'',
      s_labels = [(''id'', JStr i), (''id_short'', JStr (take 8 i)), (''state'', JStr ''inactive'')],
      s_value = JInt 1\<rparr>"

section \<open>Environments of the examples\<close>

text \<open>
  A process whose local time zone is UTC, and one whose local time is an hour ahead of
  UTC (Central European Time). Both iterate a set in the order of the list that holds it;
  the examples never print a float, a list or a dict.
\<close>

definition utc_env :: env where
  "utc_env = \<lparr>mktime = (\<lambda>t. t), set_iter = (\<lambda>xs. xs), py_repr = (\<lambda>v. [])\<rparr>"

definition cet_env :: env where
  "cet_env = \<lparr>mktime = (\<lambda>t. t - 3600), set_iter = (\<lambda>xs. xs), py_repr = (\<lambda>v. [])\<rparr>"

text \<open>A stats record with every required field and none of the optional sub-records.\<close>

definition example_node :: "string \<Rightarrow> json" where
  "example_node i =
     JObj [(''id'', JStr i), (''state'', JStr ''active''), (''core'', JBool False),
           (''ipAddress'', JStr ''192.0.2.1''), (''sunrise'', JBool True),
           (''cassini'', JBool False),
           (''geoloc'', JObj [(''region'', JStr ''EU''), (''city'', JStr ''Kyiv''),
                             (''country'', JStr ''Ukraine''), (''countryCode'', JStr ''UA'')]),
           (''version'', JStr ''1093_abc123''), (''bias'', JInt 1),
           (''biases'', JObj [(''ageBias'', JInt 0), (''speedPenalty'', JInt 1)]),
           (''lastRegistration'', JStr ''2023-01-01T00:00:00.000Z''),
           (''createdAt'', JStr ''2023-01-01T00:00:00.000Z''),
           (''diskStats'', JObj [(''totalDiskMB'', JInt 4000000), (''usedDiskMB'', JInt 1000000),
                                (''availableDiskMB'', JInt 3000000)]),
           (''memoryStats'', JObj [(''totalMemoryKB'', JInt 32000000),
                                  (''freeMemoryKB'', JInt 1000000),
                                  (''availableMemoryKB'', JInt 16000000)]),
           (''cpuStats'', JObj [(''numCPUs'', JInt 8), (''loadAvgs'', JArr [JInt 1, JInt 2, JInt 3])]),
           (''nicStats'', JObj [(''bytesSent'', JInt 1000), (''bytesReceived'', JInt 500)])]"

section \<open>Properties\<close>

subsection \<open>Sequencing\<close>

lemma py_bind_assoc:
  "py_bind (py_bind m f) g = py_bind m (\<lambda>x. py_bind (f x) g)"
  by (cases m) auto

lemma py_bind_cong_Inr:
  "(\<And>x. m = Inr x \<Longrightarrow> f x = g x) \<Longrightarrow> py_bind m f = py_bind m g"
  by (cases m) auto

lemma py_bind_InrE:
  assumes "py_bind m f = Inr y"
  obtains x where "m = Inr x" and "f x = Inr y"
  using assms by (cases m) auto

subsection \<open>Latency quantiles\<close>

lemma quantile_fields:
  "map (\<lambda>(q, p). (q, quantile_field p)) quantiles =
     [(''0.01'', ''p1_1h''), (''0.05'', ''p5_1h''), (''0.5'', ''p50_1h''),
      (''0.95'', ''p95_1h''), (''0.99'', ''p99_1h'')]"
  by (simp add: quantiles_def quantile_field_def str_nat.simps digit_char_def)

lemma NodeResponseDurationMetric_loop_takeWhile:
  assumes "map_of fs ''id'' = Some i"
  shows "NodeResponseDurationMetric_loop self (JObj fs) (JObj t) qs =
     Inr (self\<lparr>samples := samples self @
       map (\<lambda>(q, p). \<lparr>s_name = name self, s_labels = zip (labelnames self) [i, JStr q],
                      s_value = the (map_of t (quantile_field p))\<rparr>)
         (takeWhile (\<lambda>(q, p). map_of t (quantile_field p) \<noteq> None) qs)\<rparr>)"
  using assms
proof (induction qs arbitrary: self)
  case Nil
  then show ?case by simp
next
  case (Cons a qs)
  obtain q p where a: "a = (q, p)" by (cases a)
  show ?case
  proof (cases "map_of t (quantile_field p)")
    case None
    then show ?thesis using Cons.prems by (simp add: a)
  next
    case (Some v)
    then show ?thesis using Cons.prems Cons.IH[of "gauge_add_metric self [i, JStr q] v"]
      by (simp add: a gauge_add_metric_def)
  qed
qed

text \<open>
  Claim C1. The latency-quantile family goes through the quantiles 0.01, 0.05, 0.5, 0.95,
  0.99 in this order and reads the fields \<^verbatim>\<open>p1_1h\<close>, \<^verbatim>\<open>p5_1h\<close>, \<^verbatim>\<open>p50_1h\<close>, \<^verbatim>\<open>p95_1h\<close>,
  \<^verbatim>\<open>p99_1h\<close>. For a record without \<^verbatim>\<open>ttfbStats\<close> it adds no sample. For a record with an
  identifier and a \<^verbatim>\<open>ttfbStats\<close> sub-record it adds one sample labelled with the
  identifier and the quantile for each quantile before the first whose field is missing,
  and none from there on.
\<close>

theorem quantiles_stop_at_first_missing:
  "map (\<lambda>(q, p). (q, quantile_field p)) quantiles =
     [(''0.01'', ''p1_1h''), (''0.05'', ''p5_1h''), (''0.5'', ''p50_1h''),
      (''0.95'', ''p95_1h''), (''0.99'', ''p99_1h'')]
   \<and> (map_of fs ''ttfbStats'' = None \<longrightarrow>
        NodeResponseDurationMetric_add (NodeResponseDurationMetric_init\<lparr>samples := ss\<rparr>)
          (JObj fs) = Inr (NodeResponseDurationMetric_init\<lparr>samples := ss\<rparr>))
   \<and> (\<forall>i t. map_of fs ''id'' = Some i \<and> map_of fs ''ttfbStats'' = Some (JObj t) \<longrightarrow>
        NodeResponseDurationMetric_add (NodeResponseDurationMetric_init\<lparr>samples := ss\<rparr>)
          (JObj fs) =
        Inr (NodeResponseDurationMetric_init\<lparr>samples := ss @
          map (\<lambda>(q, p). \<lparr>s_name = ''saturn_node_response_duration_milliseconds'',
                         s_labels = [(''id'', i), (''quantile'', JStr q)],
                         s_value = the (map_of t (quantile_field p))\<rparr>)
            (takeWhile (\<lambda>(q, p). map_of t (quantile_field p) \<noteq> None) quantiles)\<rparr>))"
proof (intro conjI allI impI)
  show "map (\<lambda>(q, p). (q, quantile_field p)) quantiles =
     [(''0.01'', ''p1_1h''), (''0.05'', ''p5_1h''), (''0.5'', ''p50_1h''),
      (''0.95'', ''p95_1h''), (''0.99'', ''p99_1h'')]"
    by (rule quantile_fields)
next
  assume "map_of fs ''ttfbStats'' = None"
  then show "NodeResponseDurationMetric_add (NodeResponseDurationMetric_init\<lparr>samples := ss\<rparr>)
          (JObj fs) = Inr (NodeResponseDurationMetric_init\<lparr>samples := ss\<rparr>)"
    by (simp add: NodeResponseDurationMetric_add_def)
next
  fix i t
  assume h: "map_of fs ''id'' = Some i \<and> map_of fs ''ttfbStats'' = Some (JObj t)"
  show "NodeResponseDurationMetric_add (NodeResponseDurationMetric_init\<lparr>samples := ss\<rparr>)
          (JObj fs) =
        Inr (NodeResponseDurationMetric_init\<lparr>samples := ss @
          map (\<lambda>(q, p). \<lparr>s_name = ''saturn_node_response_duration_milliseconds'',
                         s_labels = [(''id'', i), (''quantile'', JStr q)],
                         s_value = the (map_of t (quantile_field p))\<rparr>)
            (takeWhile (\<lambda>(q, p). map_of t (quantile_field p) \<noteq> None) quantiles)\<rparr>)"
  proof (cases "t = []")
    case True
    then show ?thesis using h
      by (simp add: NodeResponseDurationMetric_add_def quantiles_def)
  next
    case False
    then show ?thesis using h NodeResponseDurationMetric_loop_takeWhile[of fs i _ t quantiles]
      by (simp add: NodeResponseDurationMetric_add_def NodeResponseDurationMetric_init_def)
  qed
qed

theorem quantiles_stop_at_first_missing_witness:
  "NodeResponseDurationMetric_add NodeResponseDurationMetric_init
     (JObj [(''id'', JStr ''n1''),
            (''ttfbStats'', JObj [(''p1_1h'', JInt 10), (''p5_1h'', JInt 20),
                                 (''p50_1h'', JInt 30), (''p99_1h'', JInt 50)])]) =
   Inr (NodeResponseDurationMetric_init\<lparr>samples :=
     [\<lparr>s_name = ''saturn_node_response_duration_milliseconds'',
       s_labels = [(''id'', JStr ''n1''), (''quantile'', JStr ''0.01'')], s_value = JInt 10\<rparr>,
      \<lparr>s_name = ''saturn_node_response_duration_milliseconds'',
       s_labels = [(''id'', JStr ''n1''), (''quantile'', JStr ''0.05'')], s_value = JInt 20\<rparr>,
      \<lparr>s_name = ''saturn_node_response_duration_milliseconds'',
       s_labels = [(''id'', JStr ''n1''), (''quantile'', JStr ''0.5'')], s_value = JInt 30\<rparr>]\<rparr>)
   \<and> NodeResponseDurationMetric_add NodeResponseDurationMetric_init
        (JObj [(''id'', JStr ''n1'')]) = Inr NodeResponseDurationMetric_init"
  using quantiles_stop_at_first_missing
    [of "[(''id'', JStr ''n1''),
          (''ttfbStats'', JObj [(''p1_1h'', JInt 10), (''p5_1h'', JInt 20),
                               (''p50_1h'', JInt 30), (''p99_1h'', JInt 50)])]" "[]"]
    quantiles_stop_at_first_missing [of "[(''id'', JStr ''n1'')]" "[]"]
  by (simp add: quantiles_def quantile_field_def str_nat.simps digit_char_def
      NodeResponseDurationMetric_init_def)

subsection \<open>Request outcomes\<close>

text \<open>
  Claim C2. For a record without \<^verbatim>\<open>ttfbStats\<close> the request-outcome family adds no
  sample. For a record with an identifier and a \<^verbatim>\<open>ttfbStats\<close> sub-record it adds the four
  samples \<^verbatim>\<open>ok\<close>, \<^verbatim>\<open>ok_hit\<close>, \<^verbatim>\<open>error\<close>, \<^verbatim>\<open>ok_slow_hit\<close> with the values of
  \<^verbatim>\<open>reqs_served_1h\<close>, \<^verbatim>\<open>hits_1h\<close>, \<^verbatim>\<open>errors_1h\<close>, \<^verbatim>\<open>slow_hits_1h\<close> when all four fields
  are there, and no sample when one of them is missing.
\<close>

theorem requests_all_or_nothing:
  "(map_of fs ''ttfbStats'' = None \<longrightarrow>
      NodeRequestsMetric_add (NodeRequestsMetric_init\<lparr>samples := ss\<rparr>) (JObj fs) =
      Inr (NodeRequestsMetric_init\<lparr>samples := ss\<rparr>))
   \<and> (\<forall>i t. map_of fs ''id'' = Some i \<and> map_of fs ''ttfbStats'' = Some (JObj t) \<longrightarrow>
        NodeRequestsMetric_add (NodeRequestsMetric_init\<lparr>samples := ss\<rparr>) (JObj fs) =
        Inr (NodeRequestsMetric_init\<lparr>samples := ss @
          (if {''reqs_served_1h'', ''hits_1h'', ''errors_1h'', ''slow_hits_1h''}
                \<subseteq> dom (map_of t)
           then map (\<lambda>(result, field).
                       \<lparr>s_name = ''saturn_node_requests'',
                        s_labels = [(''id'', i), (''result'', JStr result)],
                        s_value = the (map_of t field)\<rparr>)
                  [(''ok'', ''reqs_served_1h''), (''ok_hit'', ''hits_1h''),
                   (''error'', ''errors_1h''), (''ok_slow_hit'', ''slow_hits_1h'')]
           else [])\<rparr>))"
proof (intro conjI allI impI)
  assume "map_of fs ''ttfbStats'' = None"
  then show "NodeRequestsMetric_add (NodeRequestsMetric_init\<lparr>samples := ss\<rparr>) (JObj fs) =
      Inr (NodeRequestsMetric_init\<lparr>samples := ss\<rparr>)"
    by (simp add: NodeRequestsMetric_add_def)
next
  fix i t
  assume h: "map_of fs ''id'' = Some i \<and> map_of fs ''ttfbStats'' = Some (JObj t)"
  let ?goal = "NodeRequestsMetric_add (NodeRequestsMetric_init\<lparr>samples := ss\<rparr>) (JObj fs) =
        Inr (NodeRequestsMetric_init\<lparr>samples := ss @
          (if {''reqs_served_1h'', ''hits_1h'', ''errors_1h'', ''slow_hits_1h''}
                \<subseteq> dom (map_of t)
           then map (\<lambda>(result, field).
                       \<lparr>s_name = ''saturn_node_requests'',
                        s_labels = [(''id'', i), (''result'', JStr result)],
                        s_value = the (map_of t field)\<rparr>)
                  [(''ok'', ''reqs_served_1h''), (''ok_hit'', ''hits_1h''),
                   (''error'', ''errors_1h''), (''ok_slow_hit'', ''slow_hits_1h'')]
           else [])\<rparr>)"
  show ?goal
  proof (cases "t = []")
    case True
    then show ?thesis using h by (simp add: NodeRequestsMetric_add_def)
  next
    case False
    then show ?thesis using h
      by (auto simp add: NodeRequestsMetric_add_def NodeRequestsMetric_init_def
          gauge_add_metric_def dom_def split: option.splits)
  qed
qed

theorem requests_all_or_nothing_witness:
  "NodeRequestsMetric_add NodeRequestsMetric_init
     (JObj [(''id'', JStr ''n1''),
            (''ttfbStats'', JObj [(''reqs_served_1h'', JInt 7), (''hits_1h'', JInt 5),
                                 (''errors_1h'', JInt 0), (''slow_hits_1h'', JInt 1)])]) =
   Inr (NodeRequestsMetric_init\<lparr>samples :=
     [\<lparr>s_name = ''saturn_node_requests'',
       s_labels = [(''id'', JStr ''n1''), (''result'', JStr ''ok'')], s_value = JInt 7\<rparr>,
      \<lparr>s_name = ''saturn_node_requests'',
       s_labels = [(''id'', JStr ''n1''), (''result'', JStr ''ok_hit'')], s_value = JInt 5\<rparr>,
      \<lparr>s_name = ''saturn_node_requests'',
       s_labels = [(''id'', JStr ''n1''), (''result'', JStr ''error'')], s_value = JInt 0\<rparr>,
      \<lparr>s_name = ''saturn_node_requests'',
       s_labels = [(''id'', JStr ''n1''), (''result'', JStr ''ok_slow_hit'')],
       s_value = JInt 1\<rparr>]\<rparr>)
   \<and> NodeRequestsMetric_add NodeRequestsMetric_init
       (JObj [(''id'', JStr ''n1''),
              (''ttfbStats'', JObj [(''reqs_served_1h'', JInt 7), (''hits_1h'', JInt 5),
                                   (''slow_hits_1h'', JInt 1)])]) =
     Inr NodeRequestsMetric_init
   \<and> NodeRequestsMetric_add NodeRequestsMetric_init (JObj [(''id'', JStr ''n1'')]) =
     Inr NodeRequestsMetric_init"
  using requests_all_or_nothing
    [of "[(''id'', JStr ''n1''),
          (''ttfbStats'', JObj [(''reqs_served_1h'', JInt 7), (''hits_1h'', JInt 5),
                               (''errors_1h'', JInt 0), (''slow_hits_1h'', JInt 1)])]" "[]"]
    requests_all_or_nothing
    [of "[(''id'', JStr ''n1''),
          (''ttfbStats'', JObj [(''reqs_served_1h'', JInt 7), (''hits_1h'', JInt 5),
                               (''slow_hits_1h'', JInt 1)])]" "[]"]
    requests_all_or_nothing [of "[(''id'', JStr ''n1'')]" "[]"]
  by (simp add: NodeRequestsMetric_init_def)

subsection \<open>Health check failures\<close>

lemma py_eq_JStr [simp]: "py_eq (JStr a) (JStr b) = (a = b)"
  by (simp add: py_eq_def)

text \<open>
  The counting dict on string keys: its keys stay distinct, a new key is added at the
  end, and the count of the key goes up by one.
\<close>

lemma defaultdict_incr_strs:
  "\<exists>acc'. defaultdict_incr (map (\<lambda>(e, n). (JStr e, n)) acc) (JStr e) =
            map (\<lambda>(e, n). (JStr e, n)) acc'
     \<and> map fst acc' = (if e \<in> set (map fst acc) then map fst acc else map fst acc @ [e])
     \<and> (distinct (map fst acc) \<longrightarrow>
          map_of acc' = (map_of acc)(e \<mapsto> (case map_of acc e of None \<Rightarrow> 1 | Some n \<Rightarrow> n + 1)))"
proof (induction acc)
  case Nil
  show ?case by (rule exI[of _ "[(e, 1)]"]) simp
next
  case (Cons a acc)
  obtain e' n' where a: "a = (e', n')" by (cases a)
  show ?case
  proof (cases "e' = e")
    case True
    show ?thesis
      by (rule exI[of _ "(e, n' + 1) # acc"]) (auto simp add: a True)
  next
    case False
    from Cons.IH obtain acc' where
      h: "defaultdict_incr (map (\<lambda>(e, n). (JStr e, n)) acc) (JStr e) =
            map (\<lambda>(e, n). (JStr e, n)) acc'"
         "map fst acc' = (if e \<in> set (map fst acc) then map fst acc else map fst acc @ [e])"
         "distinct (map fst acc) \<longrightarrow>
          map_of acc' = (map_of acc)(e \<mapsto> (case map_of acc e of None \<Rightarrow> 1 | Some n \<Rightarrow> n + 1))"
      by blast
    show ?thesis
      by (rule exI[of _ "(e', n') # acc'"]) (use False h in \<open>auto simp add: a\<close>)
  qed
qed


lemma count_errors_strs:
  assumes "map (\<lambda>kv. map_of kv ''error'') evs = map (\<lambda>e. Some (JStr e)) es"
    and "distinct (map fst acc)"
  shows "\<exists>acc'. count_errors (map (\<lambda>(e, n). (JStr e, n)) acc) (map JObj evs) =
                  Inr (map (\<lambda>(e, n). (JStr e, n)) acc')
     \<and> distinct (map fst acc')
     \<and> set (map fst acc') = set (map fst acc) \<union> set es
     \<and> (\<forall>e. (case map_of acc' e of None \<Rightarrow> 0 | Some n \<Rightarrow> n) =
             (case map_of acc e of None \<Rightarrow> 0 | Some n \<Rightarrow> n) + int (count_list es e))"
  using assms
proof (induction evs arbitrary: acc es)
  case Nil
  then show ?case by (intro exI[of _ acc]) simp
next
  case (Cons ev evs)
  from Cons.prems(1) obtain e es' where es: "es = e # es'"
    and ev: "map_of ev ''error'' = Some (JStr e)"
    and rest: "map (\<lambda>kv. map_of kv ''error'') evs = map (\<lambda>e. Some (JStr e)) es'"
    by (cases es) auto
  from defaultdict_incr_strs[of acc e] obtain acc1 where
    a1: "defaultdict_incr (map (\<lambda>(e, n). (JStr e, n)) acc) (JStr e) =
           map (\<lambda>(e, n). (JStr e, n)) acc1"
    and k1: "map fst acc1 =
           (if e \<in> set (map fst acc) then map fst acc else map fst acc @ [e])"
    and m1: "map_of acc1 =
           (map_of acc)(e \<mapsto> (case map_of acc e of None \<Rightarrow> 1 | Some n \<Rightarrow> n + 1))"
    using Cons.prems(2) by blast
  have d1: "distinct (map fst acc1)"
    using k1 Cons.prems(2) by auto
  from Cons.IH[OF rest d1] obtain acc' where
    r: "count_errors (map (\<lambda>(e, n). (JStr e, n)) acc1) (map JObj evs) =
          Inr (map (\<lambda>(e, n). (JStr e, n)) acc')"
    and d: "distinct (map fst acc')"
    and s: "set (map fst acc') = set (map fst acc1) \<union> set es'"
    and c: "\<forall>x. (case map_of acc' x of None \<Rightarrow> 0 | Some n \<Rightarrow> n) =
             (case map_of acc1 x of None \<Rightarrow> 0 | Some n \<Rightarrow> n) + int (count_list es' x)"
    by blast
  have run: "count_errors (map (\<lambda>(e, n). (JStr e, n)) acc) (map JObj (ev # evs)) =
          Inr (map (\<lambda>(e, n). (JStr e, n)) acc')"
    using ev a1 r by simp
  have keys: "set (map fst acc') = set (map fst acc) \<union> set es"
    using s k1 es by auto
  have cnt: "\<forall>x. (case map_of acc' x of None \<Rightarrow> 0 | Some n \<Rightarrow> n) =
             (case map_of acc x of None \<Rightarrow> 0 | Some n \<Rightarrow> n) + int (count_list es x)"
    using c m1 es by (auto split: option.splits)
  show ?case
    using run d keys cnt by blast
qed

lemma emit_errors_map:
  assumes "map_of fs ''id'' = Some i"
  shows "emit_errors self (JObj fs) errors =
     Inr (self\<lparr>samples := samples self @
       map (\<lambda>(k, v). \<lparr>s_name = name self, s_labels = zip (labelnames self) [i, k],
                      s_value = JInt v\<rparr>) errors\<rparr>)"
  using assms
proof (induction errors arbitrary: self)
  case Nil
  then show ?case by simp
next
  case (Cons a errors)
  obtain k v where a: "a = (k, v)" by (cases a)
  show ?case
    using Cons.prems Cons.IH[of "gauge_add_metric self [i, k] (JInt v)"]
    by (simp add: a gauge_add_metric_def)
qed

text \<open>
  Claim C3. For a record with an identifier, the health-check-failure family adds exactly
  one sample, with the value 0 and the identifier as its only label, when the list of
  failures is missing or empty. For a list of events that is not empty, each with a
  string \<^verbatim>\<open>error\<close>, it adds one sample labelled with the identifier and the error for each
  distinct error of the list, whose value is the number of events with this error.
\<close>

theorem health_check_failures_by_error:
  "(map_of fs ''id'' = Some i \<and>
    (map_of fs ''HealthCheckFailures'' = None \<or>
     map_of fs ''HealthCheckFailures'' = Some (JArr [])) \<longrightarrow>
      NodeHealthCheckFailuresMetric_add
        (NodeHealthCheckFailuresMetric_init\<lparr>samples := ss\<rparr>) (JObj fs) =
      Inr (NodeHealthCheckFailuresMetric_init\<lparr>samples := ss @
        [\<lparr>s_name = ''saturn_node_health_check_failures'', s_labels = [(''id'', i)],
          s_value = JInt 0\<rparr>]\<rparr>))
   \<and> (map_of fs ''id'' = Some i \<and>
      evs \<noteq> [] \<and> map_of fs ''HealthCheckFailures'' = Some (JArr (map JObj evs)) \<and>
      map (\<lambda>kv. map_of kv ''error'') evs = map (\<lambda>e. Some (JStr e)) es \<longrightarrow>
      (\<exists>errors.
         NodeHealthCheckFailuresMetric_add
           (NodeHealthCheckFailuresMetric_init\<lparr>samples := ss\<rparr>) (JObj fs) =
         Inr (NodeHealthCheckFailuresMetric_init\<lparr>samples := ss @
           map (\<lambda>(e, n). \<lparr>s_name = ''saturn_node_health_check_failures'',
                          s_labels = [(''id'', i), (''error'', JStr e)],
                          s_value = JInt n\<rparr>) errors\<rparr>)
         \<and> distinct (map fst errors)
         \<and> set (map fst errors) = set es
         \<and> (\<forall>(e, n) \<in> set errors. n = int (count_list es e))))"
proof (intro impI conjI)
  assume "map_of fs ''id'' = Some i \<and>
    (map_of fs ''HealthCheckFailures'' = None \<or>
     map_of fs ''HealthCheckFailures'' = Some (JArr []))"
  then show "NodeHealthCheckFailuresMetric_add
          (NodeHealthCheckFailuresMetric_init\<lparr>samples := ss\<rparr>) (JObj fs) =
        Inr (NodeHealthCheckFailuresMetric_init\<lparr>samples := ss @
          [\<lparr>s_name = ''saturn_node_health_check_failures'', s_labels = [(''id'', i)],
            s_value = JInt 0\<rparr>]\<rparr>)"
    by (auto simp add: NodeHealthCheckFailuresMetric_add_def
        NodeHealthCheckFailuresMetric_init_def gauge_add_metric_def)
next
  assume h: "map_of fs ''id'' = Some i \<and>
      evs \<noteq> [] \<and> map_of fs ''HealthCheckFailures'' = Some (JArr (map JObj evs)) \<and>
      map (\<lambda>kv. map_of kv ''error'') evs = map (\<lambda>e. Some (JStr e)) es"
  then have i: "map_of fs ''id'' = Some i" by simp
  from count_errors_strs[of evs es "[]"] h obtain errors where
    r: "count_errors [] (map JObj evs) = Inr (map (\<lambda>(e, n). (JStr e, n)) errors)"
    and d: "distinct (map fst errors)"
    and s: "set (map fst errors) = set es"
    and c: "\<forall>e. (case map_of errors e of None \<Rightarrow> 0 | Some n \<Rightarrow> n) = int (count_list es e)"
    by auto
  have cnt: "\<forall>(e, n) \<in> set errors. n = int (count_list es e)"
  proof (clarify)
    fix e n
    assume "(e, n) \<in> set errors"
    then have "map_of errors e = Some n" using d by simp
    then show "n = int (count_list es e)" using c[rule_format, of e] by simp
  qed
  have "NodeHealthCheckFailuresMetric_add
               (NodeHealthCheckFailuresMetric_init\<lparr>samples := ss\<rparr>) (JObj fs) =
             Inr (NodeHealthCheckFailuresMetric_init\<lparr>samples := ss @
               map (\<lambda>(e, n). \<lparr>s_name = ''saturn_node_health_check_failures'',
                              s_labels = [(''id'', i), (''error'', JStr e)],
                              s_value = JInt n\<rparr>) errors\<rparr>)"
    using h r emit_errors_map[OF i]
    by (simp add: NodeHealthCheckFailuresMetric_add_def
        NodeHealthCheckFailuresMetric_init_def comp_def split_def)
  then show "\<exists>errors.
             NodeHealthCheckFailuresMetric_add
               (NodeHealthCheckFailuresMetric_init\<lparr>samples := ss\<rparr>) (JObj fs) =
             Inr (NodeHealthCheckFailuresMetric_init\<lparr>samples := ss @
               map (\<lambda>(e, n). \<lparr>s_name = ''saturn_node_health_check_failures'',
                              s_labels = [(''id'', i), (''error'', JStr e)],
                              s_value = JInt n\<rparr>) errors\<rparr>)
             \<and> distinct (map fst errors)
             \<and> set (map fst errors) = set es
             \<and> (\<forall>(e, n) \<in> set errors. n = int (count_list es e))"
    using d s cnt by blast
qed

theorem health_check_failures_by_error_witness:
  "NodeHealthCheckFailuresMetric_add NodeHealthCheckFailuresMetric_init
     (JObj [(''id'', JStr ''n1''),
            (''HealthCheckFailures'',
             JArr [JObj [(''error'', JStr ''timeout'')], JObj [(''error'', JStr ''timeout'')],
                   JObj [(''error'', JStr ''dns'')]])]) =
   Inr (NodeHealthCheckFailuresMetric_init\<lparr>samples :=
     [\<lparr>s_name = ''saturn_node_health_check_failures'',
       s_labels = [(''id'', JStr ''n1''), (''error'', JStr ''timeout'')], s_value = JInt 2\<rparr>,
      \<lparr>s_name = ''saturn_node_health_check_failures'',
       s_labels = [(''id'', JStr ''n1''), (''error'', JStr ''dns'')], s_value = JInt 1\<rparr>]\<rparr>)
   \<and> NodeHealthCheckFailuresMetric_add NodeHealthCheckFailuresMetric_init
       (JObj [(''id'', JStr ''n1'')]) =
     Inr (NodeHealthCheckFailuresMetric_init\<lparr>samples :=
       [\<lparr>s_name = ''saturn_node_health_check_failures'',
         s_labels = [(''id'', JStr ''n1'')], s_value = JInt 0\<rparr>]\<rparr>)
   \<and> (\<exists>errors.
        NodeHealthCheckFailuresMetric_add NodeHealthCheckFailuresMetric_init
          (JObj [(''id'', JStr ''n1''),
            (''HealthCheckFailures'',
             JArr [JObj [(''error'', JStr ''timeout'')], JObj [(''error'', JStr ''timeout'')],
                   JObj [(''error'', JStr ''dns'')]])]) =
        Inr (NodeHealthCheckFailuresMetric_init\<lparr>samples :=
               map (\<lambda>(e, n). \<lparr>s_name = ''saturn_node_health_check_failures'',
                              s_labels = [(''id'', JStr ''n1''), (''error'', JStr e)],
                              s_value = JInt n\<rparr>) errors\<rparr>)
        \<and> distinct (map fst errors)
        \<and> set (map fst errors) = {''timeout'', ''dns''}
        \<and> (\<forall>(e, n) \<in> set errors. n = int (count_list [''timeout'', ''timeout'', ''dns''] e)))"
proof (intro conjI)
  show "NodeHealthCheckFailuresMetric_add NodeHealthCheckFailuresMetric_init
     (JObj [(''id'', JStr ''n1''),
            (''HealthCheckFailures'',
             JArr [JObj [(''error'', JStr ''timeout'')], JObj [(''error'', JStr ''timeout'')],
                   JObj [(''error'', JStr ''dns'')]])]) =
   Inr (NodeHealthCheckFailuresMetric_init\<lparr>samples :=
     [\<lparr>s_name = ''saturn_node_health_check_failures'',
       s_labels = [(''id'', JStr ''n1''), (''error'', JStr ''timeout'')], s_value = JInt 2\<rparr>,
      \<lparr>s_name = ''saturn_node_health_check_failures'',
       s_labels = [(''id'', JStr ''n1''), (''error'', JStr ''dns'')], s_value = JInt 1\<rparr>]\<rparr>)"
    by (simp add: NodeHealthCheckFailuresMetric_add_def
        NodeHealthCheckFailuresMetric_init_def gauge_add_metric_def)
  show "NodeHealthCheckFailuresMetric_add NodeHealthCheckFailuresMetric_init
       (JObj [(''id'', JStr ''n1'')]) =
     Inr (NodeHealthCheckFailuresMetric_init\<lparr>samples :=
       [\<lparr>s_name = ''saturn_node_health_check_failures'',
         s_labels = [(''id'', JStr ''n1'')], s_value = JInt 0\<rparr>]\<rparr>)"
    using health_check_failures_by_error [of "[(''id'', JStr ''n1'')]" "JStr ''n1''" "[]"]
    by (simp add: NodeHealthCheckFailuresMetric_init_def)
  show "\<exists>errors.
        NodeHealthCheckFailuresMetric_add NodeHealthCheckFailuresMetric_init
          (JObj [(''id'', JStr ''n1''),
            (''HealthCheckFailures'',
             JArr [JObj [(''error'', JStr ''timeout'')], JObj [(''error'', JStr ''timeout'')],
                   JObj [(''error'', JStr ''dns'')]])]) =
        Inr (NodeHealthCheckFailuresMetric_init\<lparr>samples :=
               map (\<lambda>(e, n). \<lparr>s_name = ''saturn_node_health_check_failures'',
                              s_labels = [(''id'', JStr ''n1''), (''error'', JStr e)],
                              s_value = JInt n\<rparr>) errors\<rparr>)
        \<and> distinct (map fst errors)
        \<and> set (map fst errors) = {''timeout'', ''dns''}
        \<and> (\<forall>(e, n) \<in> set errors. n = int (count_list [''timeout'', ''timeout'', ''dns''] e))"
    using health_check_failures_by_error
      [of "[(''id'', JStr ''n1''),
            (''HealthCheckFailures'',
             JArr [JObj [(''error'', JStr ''timeout'')], JObj [(''error'', JStr ''timeout'')],
                   JObj [(''error'', JStr ''dns'')]])]" "JStr ''n1''" "[]"
          "[[(''error'', JStr ''timeout'')], [(''error'', JStr ''timeout'')],
            [(''error'', JStr ''dns'')]]"
          "[''timeout'', ''timeout'', ''dns'']"]
    by (simp add: NodeHealthCheckFailuresMetric_init_def)
qed

subsection \<open>Timestamp conversion\<close>

lemmas strptime_defs =
  strptime_def digits_field_def day_field_def expect_def is_digit_def digit_val_def
  int_of_digits_def days_in_month_def is_leap_def

lemmas timestamp_defs =
  timestamp_def seconds_since_epoch_def ymd2ord_def days_before_year_def
  days_before_month_def is_leap_def

lemma replicate_numeral:
  "replicate (numeral n) x = x # replicate (pred_numeral n) x"
  by (simp add: numeral_eq_Suc)

lemma strptime_example:
  "strptime ''2023-01-01T00:00:00.000Z'' =
     Some \<lparr>dt_year = 2023, dt_month = 1, dt_day = 1, dt_hour = 0, dt_minute = 0,
           dt_second = 0, dt_microsecond = 0\<rparr>"
  by (simp add: strptime_defs replicate_numeral)

text \<open>
  Claim C4 says that the conversion gives the epoch milliseconds of the UTC instant
  whatever the local time zone is. The code parses the string into a naive
  \<^verbatim>\<open>datetime\<close>, and \<^verbatim>\<open>timestamp()\<close> reads a naive \<^verbatim>\<open>datetime\<close> as local time: the string
  \<^verbatim>\<open>2023-01-01T00:00:00.000Z\<close> gives 1672531200000 in a process whose zone is UTC and
  1672527600000 in a process whose local time is one hour ahead of UTC.
\<close>

theorem str_to_timestamp_reads_local_time:
  "str_to_timestamp utc_env (JStr ''2023-01-01T00:00:00.000Z'') =
     Inr (JFloat 1672531200000)
   \<and> str_to_timestamp cet_env (JStr ''2023-01-01T00:00:00.000Z'') =
     Inr (JFloat 1672527600000)"
  by (simp add: strptime_example timestamp_defs utc_env_def cet_env_def)

theorem str_to_timestamp_reads_local_time_witness:
  "str_to_timestamp cet_env (JStr ''2023-01-01T00:00:00.000Z'') \<noteq>
     str_to_timestamp utc_env (JStr ''2023-01-01T00:00:00.000Z'')"
  using str_to_timestamp_reads_local_time by simp

subsection \<open>Snapshot assembly\<close>

lemma py_in_Nil: "py_in x [] = False"
  by (simp add: py_in_def)

lemma py_in_JStr: "py_in (JStr i) (map JStr S) = (i \<in> set S)"
  by (induction S) (auto simp add: py_in_def)

lemma filtered_out_string_id:
  "map_of fs ''id'' = Some (JStr i) \<Longrightarrow>
     filtered_out S (JObj fs) ''id'' = Inr (\<not> NodeFilter_matches S i)"
  by (simp add: filtered_out_def NodeFilter_matches_def py_in_JStr)

lemma py_in_foldl_set_add:
  "py_in (JStr i) (foldl set_add found (map JStr obs)) = (py_in (JStr i) found \<or> i \<in> set obs)"
  by (induction obs arbitrary: found) (auto simp add: set_add_def py_in_def)

text \<open>The loop over the records is the projection of the records that match.\<close>

lemma stats_loop_project:
  assumes "list_all2 (\<lambda>n i. \<exists>fs. n = JObj fs \<and> map_of fs ''id'' = Some (JStr i)) L ids"
  shows "stats_loop env \<lparr>node_ids = S\<rparr> found ms L =
     py_bind
       (project_all env ms (map fst (filter (\<lambda>(n, i). NodeFilter_matches S i) (zip L ids))))
       (\<lambda>ms'. Inr (foldl set_add found (map JStr (filter (NodeFilter_matches S) ids)), ms'))"
  using assms
proof (induction L ids arbitrary: found ms rule: list_all2_induct)
  case Nil
  then show ?case by simp
next
  case (Cons n L i ids)
  from Cons.hyps(1) obtain fs where n: "n = JObj fs" and i: "map_of fs ''id'' = Some (JStr i)"
    by blast
  show ?case
  proof (cases "NodeFilter_matches S i")
    case False
    then show ?thesis
      using Cons.IH[of found ms] by (simp add: n filtered_out_string_id[OF i])
  next
    case True
    then show ?thesis
      using Cons.IH i
      by (simp add: n filtered_out_string_id[OF i] py_bind_assoc del: add_all.simps)
  qed
qed

lemma foldl_add_inactive:
  "foldl NodeInfoMetric_add_inactive info xs =
     info\<lparr>samples := samples info @
       map (\<lambda>i. \<lparr>s_name = name info @ ''_info'',
                 s_labels = [(''id'', JStr i), (''id_short'', JStr (take 8 i)),
                             (''state'', JStr ''inactive'')],
                 s_value = JInt 1\<rparr>) xs\<rparr>"
  by (induction xs arbitrary: info)
    (simp_all add: NodeInfoMetric_add_inactive_def info_add_metric_def dict_update_def)

text \<open>The info family stays the first family, under its name.\<close>

lemma NodeInfoMetric_add_name:
  assumes "NodeInfoMetric_add env m node = Inr m'"
  shows "cls m' = cls m \<and> name m' = name m"
  using assms unfolding NodeInfoMetric_add_def Let_def
  apply (elim py_bind_InrE)
  apply (auto simp add: info_add_metric_def split: if_splits)
  done

lemma project_all_info:
  assumes "project_all env (m # ms) nodes = Inr r" and "cls m = NodeInfoMetric"
  shows "\<exists>m' ms'. r = m' # ms' \<and> cls m' = NodeInfoMetric \<and> name m' = name m"
  using assms
proof (induction nodes arbitrary: m ms)
  case Nil
  then show ?case by auto
next
  case (Cons node nodes)
  from Cons.prems(1) obtain r1 where
    r1: "add_all env (m # ms) node = Inr r1" and rest: "project_all env r1 nodes = Inr r"
    by (auto elim: py_bind_InrE)
  from r1 obtain m1 ms1 where
    m1: "add env m node = Inr m1" and "r1 = m1 # ms1"
    by (auto elim!: py_bind_InrE)
  moreover have "cls m1 = NodeInfoMetric \<and> name m1 = name m"
    using m1 Cons.prems(2) NodeInfoMetric_add_name[of env m node m1] by (simp add: add_def)
  ultimately show ?case
    using Cons.IH[of m1 ms1] rest by auto
qed

text \<open>
  Claim C5. Let the records of the fetched list be dicts whose \<^verbatim>\<open>id\<close> is a string, and
  let the configured identifiers be \<open>allow\<close>. The snapshot assembly projects exactly the
  records that match (the allow-list is empty or contains the record's identifier), in
  fetch order, and then appends to the info family one synthesized sample for each
  element of the iteration over the unmatched identifiers; a synthesized sample has the
  labels \<^verbatim>\<open>id\<close>, \<^verbatim>\<open>id_short\<close> and \<^verbatim>\<open>state\<close> only, with the state \<^verbatim>\<open>inactive\<close>. The iteration
  of a set visits each element once, so every configured identifier that was not
  observed gets exactly one such sample and no other identifier gets one.
\<close>

theorem snapshot_filters_and_adds_inactive:
  "list_all2 (\<lambda>n i. \<exists>fs. n = JObj fs \<and> map_of fs ''id'' = Some (JStr i)) L ids \<and>
   (\<forall>xs. mset (set_iter env xs) = mset xs) \<longrightarrow>
     node_metrics_from_stats env (StatsCollector_init allow) L =
       py_bind
         (project_all env StatsCollector_metrics
            (map fst (filter (\<lambda>(n, i). NodeFilter_matches allow i) (zip L ids))))
         (\<lambda>ms. Inr ((hd ms)\<lparr>samples := samples (hd ms) @
                    map inactive_sample
                      (set_iter env
                         (NodeFilter_unmatched (remdups allow)
                            (filter (NodeFilter_matches allow) ids)))\<rparr> # tl ms))
     \<and> mset (set_iter env
               (NodeFilter_unmatched (remdups allow) (filter (NodeFilter_matches allow) ids))) =
        mset_set (set allow - set (filter (NodeFilter_matches allow) ids))"
proof (intro impI conjI)
  assume h: "list_all2 (\<lambda>n i. \<exists>fs. n = JObj fs \<and> map_of fs ''id'' = Some (JStr i)) L ids \<and>
   (\<forall>xs. mset (set_iter env xs) = mset xs)"
  let ?S = "remdups allow"
  let ?obs = "filter (NodeFilter_matches allow) ids"
  let ?P = "map fst (filter (\<lambda>(n, i). NodeFilter_matches allow i) (zip L ids))"
  let ?U = "NodeFilter_unmatched ?S ?obs"
  have m: "NodeFilter_matches ?S = NodeFilter_matches allow"
    by (auto simp add: NodeFilter_matches_def fun_eq_iff)
  have loop: "stats_loop env \<lparr>node_ids = ?S\<rparr> [] StatsCollector_metrics L =
     py_bind (project_all env StatsCollector_metrics ?P)
       (\<lambda>ms'. Inr (foldl set_add [] (map JStr ?obs), ms'))"
    using stats_loop_project[of L ids env ?S "[]" StatsCollector_metrics] h by (simp add: m)
  have unm: "filter (\<lambda>i. \<not> py_in (JStr i) (foldl set_add [] (map JStr ?obs))) ?S = ?U"
    by (simp add: py_in_foldl_set_add NodeFilter_unmatched_def py_in_Nil)
  have "node_metrics_from_stats env (StatsCollector_init allow) L =
     py_bind (project_all env StatsCollector_metrics ?P)
       (\<lambda>ms. Inr (add_inactive_all env \<lparr>node_ids = ?S\<rparr> (foldl set_add [] (map JStr ?obs)) ms))"
    by (simp add: node_metrics_from_stats_def StatsCollector_init_def loop py_bind_assoc)
  also have "\<dots> =
     py_bind (project_all env StatsCollector_metrics ?P)
       (\<lambda>ms. Inr ((hd ms)\<lparr>samples := samples (hd ms) @
                    map inactive_sample (set_iter env ?U)\<rparr> # tl ms))"
  proof (rule py_bind_cong_Inr)
    fix ms
    assume "project_all env StatsCollector_metrics ?P = Inr ms"
    then obtain info rest where ms: "ms = info # rest" and "name info = ''saturn_node''"
      using project_all_info[of env NodeInfoMetric_init "tl StatsCollector_metrics" ?P ms]
      by (auto simp add: StatsCollector_metrics_def NodeInfoMetric_init_def)
    then show "Inr (add_inactive_all env \<lparr>node_ids = ?S\<rparr>
                     (foldl set_add [] (map JStr ?obs)) ms) =
          Inr ((hd ms)\<lparr>samples := samples (hd ms) @
                    map inactive_sample (set_iter env ?U)\<rparr> # tl ms)"
      by (simp add: add_inactive_all_def unm foldl_add_inactive inactive_sample_def)
  qed
  finally show "node_metrics_from_stats env (StatsCollector_init allow) L =
       py_bind (project_all env StatsCollector_metrics ?P)
         (\<lambda>ms. Inr ((hd ms)\<lparr>samples := samples (hd ms) @
                    map inactive_sample (set_iter env ?U)\<rparr> # tl ms))" .
  have "mset (set_iter env ?U) = mset ?U"
    using h by simp
  also have "\<dots> = mset_set (set ?U)"
  proof -
    have "distinct ?U" by (simp add: NodeFilter_unmatched_def)
    then show ?thesis by (rule mset_set_set[symmetric])
  qed
  also have "set ?U = set allow - set ?obs"
    by (auto simp add: NodeFilter_unmatched_def)
  finally show "mset (set_iter env ?U) = mset_set (set allow - set ?obs)" .
qed

lemmas stats_add_defs =
  add_def NodeInfoMetric_add_def NodeVersionMetric_add_def NodeWeightMetric_add_def
  NodeBiasMetric_add_def NodePenaltyMetric_add_def NodeWeightedTTFBMetric_add_def
  NodeWeightedHitsRatioMetric_add_def NodeWeightedErrorsRatioMetric_add_def
  NodeWeightedDupCacheMissRatioMetric_add_def NodeLastRegistrationMetric_add_def
  NodeCreationMetric_add_def NodeDiskTotalMetric_add_def NodeDiskUsedMetric_add_def
  NodeDiskAvailableMetric_add_def NodeMemoryTotalMetric_add_def NodeMemoryFreeMetric_add_def
  NodeMemoryAvailableMetric_add_def NodeCPUNumberMetric_add_def NodeCPULoadAvgMetric_add_def
  NodeResponseDurationMetric_add_def NodeRequestsMetric_add_def
  NodeHealthCheckFailuresMetric_add_def NodeSentBytesTotalMetric_add_def
  NodeReceivedBytesTotalMetric_add_def NodeSpeedtestUploadBandwidthMetric_add_def
  NodeSpeedtestDownloadBandwidthMetric_add_def NodeSpeedtestPingLatencyMetric_add_def
  gauge_add_field_def gauge_add_field2_def counter_add_field2_def weighted_add_def
  timestamp_add_def speedtest_add_def BIASES_def PENALTIES_def

lemmas stats_init_defs =
  NodeInfoMetric_init_def NodeVersionMetric_init_def NodeWeightMetric_init_def
  NodeBiasMetric_init_def NodePenaltyMetric_init_def NodeWeightedTTFBMetric_init_def
  NodeWeightedHitsRatioMetric_init_def NodeWeightedErrorsRatioMetric_init_def
  NodeWeightedDupCacheMissRatioMetric_init_def NodeLastRegistrationMetric_init_def
  NodeCreationMetric_init_def NodeDiskTotalMetric_init_def NodeDiskUsedMetric_init_def
  NodeDiskAvailableMetric_init_def NodeMemoryTotalMetric_init_def NodeMemoryFreeMetric_init_def
  NodeMemoryAvailableMetric_init_def NodeCPUNumberMetric_init_def NodeCPULoadAvgMetric_init_def
  NodeResponseDurationMetric_init_def NodeRequestsMetric_init_def
  NodeHealthCheckFailuresMetric_init_def NodeSentBytesTotalMetric_init_def
  NodeReceivedBytesTotalMetric_init_def NodeSpeedtestUploadBandwidthMetric_init_def
  NodeSpeedtestDownloadBandwidthMetric_init_def NodeSpeedtestPingLatencyMetric_init_def

lemma example_timestamp:
  "str_to_timestamp utc_env (JStr ''2023-01-01T00:00:00.000Z'') = Inr (JFloat 1672531200000)"
  by (simp add: strptime_example timestamp_defs utc_env_def)

lemma example_add_all:
  "\<exists>rest. add_all utc_env StatsCollector_metrics (example_node ''A'') =
     Inr (NodeInfoMetric_init\<lparr>samples :=
       [\<lparr>s_name = ''saturn_node_info'',
         s_labels =
           [(''id'', JStr ''A''), (''id_short'', JStr ''A''),
            (''state'', JStr ''active''), (''core'', JStr ''false''),
            (''ip_address'', JStr ''192.0.2.1''), (''sunrise'', JStr ''true''),
            (''cassini'', JStr ''false''), (''geoloc_region'', JStr ''EU''),
            (''geoloc_city'', JStr ''Kyiv''), (''geoloc_country'', JStr ''Ukraine''),
            (''geoloc_country_code'', JStr ''UA'')],
         s_value = JInt 1\<rparr>]\<rparr> # rest)"
  by (simp add: StatsCollector_metrics_def example_node_def stats_add_defs stats_init_defs
      example_timestamp info_add_metric_def gauge_add_metric_def counter_add_metric_def
      dict_update_def bool_to_str_def lower_char_def del: str_to_timestamp.simps)


theorem snapshot_filters_and_adds_inactive_witness:
  "\<exists>ms. node_metrics_from_stats utc_env (StatsCollector_init [''A'', ''B'', ''C''])
          [example_node ''A''] = Inr ms
     \<and> samples (hd ms) =
       [\<lparr>s_name = ''saturn_node_info'',
         s_labels =
           [(''id'', JStr ''A''), (''id_short'', JStr ''A''),
            (''state'', JStr ''active''), (''core'', JStr ''false''),
            (''ip_address'', JStr ''192.0.2.1''), (''sunrise'', JStr ''true''),
            (''cassini'', JStr ''false''), (''geoloc_region'', JStr ''EU''),
            (''geoloc_city'', JStr ''Kyiv''), (''geoloc_country'', JStr ''Ukraine''),
            (''geoloc_country_code'', JStr ''UA'')],
         s_value = JInt 1\<rparr>,
        \<lparr>s_name = ''saturn_node_info'',
         s_labels = [(''id'', JStr ''B''), (''id_short'', JStr ''B''),
                     (''state'', JStr ''inactive'')],
         s_value = JInt 1\<rparr>,
        \<lparr>s_name = ''saturn_node_info'',
         s_labels = [(''id'', JStr ''C''), (''id_short'', JStr ''C''),
                     (''state'', JStr ''inactive'')],
         s_value = JInt 1\<rparr>]"
proof -
  from example_add_all obtain rest where
    r: "add_all utc_env StatsCollector_metrics (example_node ''A'') =
     Inr (NodeInfoMetric_init\<lparr>samples :=
       [\<lparr>s_name = ''saturn_node_info'',
         s_labels =
           [(''id'', JStr ''A''), (''id_short'', JStr ''A''),
            (''state'', JStr ''active''), (''core'', JStr ''false''),
            (''ip_address'', JStr ''192.0.2.1''), (''sunrise'', JStr ''true''),
            (''cassini'', JStr ''false''), (''geoloc_region'', JStr ''EU''),
            (''geoloc_city'', JStr ''Kyiv''), (''geoloc_country'', JStr ''Ukraine''),
            (''geoloc_country_code'', JStr ''UA'')],
         s_value = JInt 1\<rparr>]\<rparr> # rest)"
    by blast
  have ids: "list_all2 (\<lambda>n i. \<exists>fs. n = JObj fs \<and> map_of fs ''id'' = Some (JStr i))
               [example_node ''A''] [''A'']"
    by (simp add: example_node_def)
  have perm: "\<forall>xs. mset (set_iter utc_env xs) = mset xs"
    by (simp add: utc_env_def)
  have "node_metrics_from_stats utc_env (StatsCollector_init [''A'', ''B'', ''C''])
          [example_node ''A''] =
       py_bind
         (project_all utc_env StatsCollector_metrics
            (map fst (filter (\<lambda>(n, i). NodeFilter_matches [''A'', ''B'', ''C''] i)
               (zip [example_node ''A''] [''A'']))))
         (\<lambda>ms. Inr ((hd ms)\<lparr>samples := samples (hd ms) @
                    map inactive_sample
                      (set_iter utc_env
                         (NodeFilter_unmatched (remdups [''A'', ''B'', ''C''])
                            (filter (NodeFilter_matches [''A'', ''B'', ''C'']) [''A''])))\<rparr>
                   # tl ms))"
    using snapshot_filters_and_adds_inactive
      [of "[example_node ''A'']" "[''A'']" utc_env "[''A'', ''B'', ''C'']"] ids perm
    by blast
  then show ?thesis
    using r
    by (simp add: NodeFilter_matches_def NodeFilter_unmatched_def utc_env_def
        inactive_sample_def del: add_all.simps)
qed

subsection \<open>Biases and penalties\<close>

lemma biases_loop_filter:
  assumes "map_of fs ''id'' = Some i" "map_of fs ''biases'' = Some (JObj b)"
  shows "biases_loop self (JObj fs) tbl =
     Inr (self\<lparr>samples := samples self @
       map (\<lambda>(k, v). \<lparr>s_name = name self, s_labels = zip (labelnames self) [i, JStr v],
                      s_value = the (map_of b k)\<rparr>)
         (filter (\<lambda>(k, v). map_of b k \<noteq> None \<and> map_of b k \<noteq> Some JNull) tbl)\<rparr>)"
  using assms
proof (induction tbl arbitrary: self)
  case Nil
  then show ?case by simp
next
  case (Cons a tbl)
  obtain k v where a: "a = (k, v)" by (cases a)
  show ?case
  proof (cases "map_of b k")
    case None
    then show ?thesis using Cons.prems Cons.IH[of self] by (simp add: a)
  next
    case (Some x)
    show ?thesis
    proof (cases "x = JNull")
      case True
      then show ?thesis using Some Cons.prems Cons.IH[of self] by (simp add: a)
    next
      case False
      then show ?thesis
        using Some Cons.prems Cons.IH[of "gauge_add_metric self [i, JStr v] x"]
        by (simp add: a gauge_add_metric_def)
    qed
  qed
qed

text \<open>
  Claim C6. For a record with an identifier and a \<^verbatim>\<open>biases\<close> map, the bias family adds one
  sample labelled with the identifier and the kind for each entry of its table of five
  keys (\<^verbatim>\<open>ageBias\<close> to \<^verbatim>\<open>age\<close>, \<^verbatim>\<open>ttfbBias\<close> to \<^verbatim>\<open>ttfb\<close>, \<^verbatim>\<open>randomBias\<close> to \<^verbatim>\<open>random\<close>,
  \<^verbatim>\<open>uptimeBias\<close> to \<^verbatim>\<open>uptime\<close>, \<^verbatim>\<open>speedtestBias\<close> to \<^verbatim>\<open>speedtest\<close>) whose key has a value in
  the map (a value other than \<^verbatim>\<open>None\<close>), in the order of the table, and the penalty family
  does the same with its table of seven keys, read from the same map. Keys that are
  missing are skipped, keys outside the tables give no sample, and the value 0 gives a
  sample like any other value.
\<close>

theorem biases_and_penalties_from_tables:
  "map_of fs ''id'' = Some i \<and> map_of fs ''biases'' = Some (JObj b) \<longrightarrow>
     NodeBiasMetric_add (NodeBiasMetric_init\<lparr>samples := ss\<rparr>) (JObj fs) =
       Inr (NodeBiasMetric_init\<lparr>samples := ss @
         map (\<lambda>(k, kind). \<lparr>s_name = ''saturn_node_bias'',
                           s_labels = [(''id'', i), (''kind'', JStr kind)],
                           s_value = the (map_of b k)\<rparr>)
           (filter (\<lambda>(k, kind). map_of b k \<noteq> None \<and> map_of b k \<noteq> Some JNull)
              [(''ageBias'', ''age''), (''ttfbBias'', ''ttfb''), (''randomBias'', ''random''),
               (''uptimeBias'', ''uptime''), (''speedtestBias'', ''speedtest'')])\<rparr>)
     \<and> NodePenaltyMetric_add (NodePenaltyMetric_init\<lparr>samples := ss\<rparr>) (JObj fs) =
       Inr (NodePenaltyMetric_init\<lparr>samples := ss @
         map (\<lambda>(k, kind). \<lparr>s_name = ''saturn_node_penalty'',
                           s_labels = [(''id'', i), (''kind'', JStr kind)],
                           s_value = the (map_of b k)\<rparr>)
           (filter (\<lambda>(k, kind). map_of b k \<noteq> None \<and> map_of b k \<noteq> Some JNull)
              [(''speedPenalty'', ''speed''), (''cpuLoadPenalty'', ''cpu_load''),
               (''errorRatioPenalty'', ''error_ratio''),
               (''oldVersionPenalty'', ''old_version''),
               (''cacheHitRatioPenalty'', ''cache_hit_ratio''),
               (''dupCacheMissRatioPenalty'', ''dup_cache_miss_ratio''),
               (''healthCheckFailuresPenalty'', ''health_check_failures'')])\<rparr>)"
proof (intro impI conjI)
  assume h: "map_of fs ''id'' = Some i \<and> map_of fs ''biases'' = Some (JObj b)"
  show "NodeBiasMetric_add (NodeBiasMetric_init\<lparr>samples := ss\<rparr>) (JObj fs) =
       Inr (NodeBiasMetric_init\<lparr>samples := ss @
         map (\<lambda>(k, kind). \<lparr>s_name = ''saturn_node_bias'',
                           s_labels = [(''id'', i), (''kind'', JStr kind)],
                           s_value = the (map_of b k)\<rparr>)
           (filter (\<lambda>(k, kind). map_of b k \<noteq> None \<and> map_of b k \<noteq> Some JNull)
              [(''ageBias'', ''age''), (''ttfbBias'', ''ttfb''), (''randomBias'', ''random''),
               (''uptimeBias'', ''uptime''), (''speedtestBias'', ''speedtest'')])\<rparr>)"
    unfolding NodeBiasMetric_add_def BIASES_def
    using h by (simp only: biases_loop_filter) (simp add: NodeBiasMetric_init_def)
  show "NodePenaltyMetric_add (NodePenaltyMetric_init\<lparr>samples := ss\<rparr>) (JObj fs) =
       Inr (NodePenaltyMetric_init\<lparr>samples := ss @
         map (\<lambda>(k, kind). \<lparr>s_name = ''saturn_node_penalty'',
                           s_labels = [(''id'', i), (''kind'', JStr kind)],
                           s_value = the (map_of b k)\<rparr>)
           (filter (\<lambda>(k, kind). map_of b k \<noteq> None \<and> map_of b k \<noteq> Some JNull)
              [(''speedPenalty'', ''speed''), (''cpuLoadPenalty'', ''cpu_load''),
               (''errorRatioPenalty'', ''error_ratio''),
               (''oldVersionPenalty'', ''old_version''),
               (''cacheHitRatioPenalty'', ''cache_hit_ratio''),
               (''dupCacheMissRatioPenalty'', ''dup_cache_miss_ratio''),
               (''healthCheckFailuresPenalty'', ''health_check_failures'')])\<rparr>)"
    unfolding NodePenaltyMetric_add_def PENALTIES_def
    using h by (simp only: biases_loop_filter) (simp add: NodePenaltyMetric_init_def)
qed

theorem biases_and_penalties_from_tables_witness:
  "NodeBiasMetric_add NodeBiasMetric_init
     (JObj [(''id'', JStr ''n1''),
            (''biases'', JObj [(''ageBias'', JInt 0), (''otherBias'', JInt 3),
                              (''ttfbBias'', JNull), (''speedPenalty'', JFloat 0)])]) =
   Inr (NodeBiasMetric_init\<lparr>samples :=
     [\<lparr>s_name = ''saturn_node_bias'',
       s_labels = [(''id'', JStr ''n1''), (''kind'', JStr ''age'')], s_value = JInt 0\<rparr>]\<rparr>)
   \<and> NodePenaltyMetric_add NodePenaltyMetric_init
     (JObj [(''id'', JStr ''n1''),
            (''biases'', JObj [(''ageBias'', JInt 0), (''otherBias'', JInt 3),
                              (''ttfbBias'', JNull), (''speedPenalty'', JFloat 0)])]) =
   Inr (NodePenaltyMetric_init\<lparr>samples :=
     [\<lparr>s_name = ''saturn_node_penalty'',
       s_labels = [(''id'', JStr ''n1''), (''kind'', JStr ''speed'')],
       s_value = JFloat 0\<rparr>]\<rparr>)"
  using biases_and_penalties_from_tables
    [of "[(''id'', JStr ''n1''),
          (''biases'', JObj [(''ageBias'', JInt 0), (''otherBias'', JInt 3),
                            (''ttfbBias'', JNull), (''speedPenalty'', JFloat 0)])]"
        "JStr ''n1''"
        "[(''ageBias'', JInt 0), (''otherBias'', JInt 3),
          (''ttfbBias'', JNull), (''speedPenalty'', JFloat 0)]" "[]"]
  by (simp add: NodeBiasMetric_init_def NodePenaltyMetric_init_def)

subsection \<open>Earnings\<close>

text \<open>
  Claim C7, as stated, fails for the payout family: it reads \<^verbatim>\<open>payoutStatus\<close> without a
  test, so a record without this field raises \<^verbatim>\<open>KeyError\<close>, which ends the whole
  collection.
\<close>

theorem payout_status_missing_raises:
  "NodePayoutInfoMetric_add NodePayoutInfoMetric_init
     (JObj [(''nodeId'', JStr ''n1''), (''filAmount'', JInt 5)]) = Inl KeyError
   \<and> node_earnings_and_retrievals_metrics utc_env (EarningsAndRetrievalsCollector_init [])
       [JObj [(''nodeId'', JStr ''n1''), (''filAmount'', JInt 5)]] = Inl KeyError"
  by (simp add: NodePayoutInfoMetric_add_def node_earnings_and_retrievals_metrics_def
      EarningsAndRetrievalsCollector_metrics_def EarningsAndRetrievalsCollector_init_def
      filtered_out_def add_def NodePayoutInfoMetric_init_def)

text \<open>
  Claim C7, amended. Each of the four families estimated earnings, uptime completion,
  retrievals and bandwidth served reads its one optional field (\<^verbatim>\<open>filAmount\<close>,
  \<^verbatim>\<open>uptimeCompletion\<close>, \<^verbatim>\<open>numRequests\<close>, \<^verbatim>\<open>numBytes\<close>): when the field is missing (or
  \<^verbatim>\<open>None\<close>) it adds no sample and does not fail; when the field has a value and the record
  has a \<^verbatim>\<open>nodeId\<close> it adds one sample labelled with the identifier only. The payout family
  makes no such test: for a record with a \<^verbatim>\<open>nodeId\<close> it adds one sample labelled with the
  identifier and the status when \<^verbatim>\<open>payoutStatus\<close> is there, and raises \<^verbatim>\<open>KeyError\<close> when
  it is missing.
\<close>

theorem earnings_optional_fields:
  "(\<forall>(add_f, init, k, nm) \<in> set
       [(NodeEstimatedEarningsMetric_add, NodeEstimatedEarningsMetric_init,
           ''filAmount'', ''saturn_node_estimated_earnings_fil_total''),
        (NodeUptimeCompletionMetric_add, NodeUptimeCompletionMetric_init,
           ''uptimeCompletion'', ''saturn_node_uptime_completion_ratio''),
        (NodeRetrievalsMetric_add, NodeRetrievalsMetric_init,
           ''numRequests'', ''saturn_node_retrievals_total''),
        (NodeBandwidthServedMetric_add, NodeBandwidthServedMetric_init,
           ''numBytes'', ''saturn_node_bandwidth_served_bytes_total'')].
      (map_of fs k = None \<or> map_of fs k = Some JNull \<longrightarrow>
         add_f (init\<lparr>samples := ss\<rparr>) (JObj fs) = Inr (init\<lparr>samples := ss\<rparr>))
      \<and> (\<forall>i v. map_of fs ''nodeId'' = Some i \<and> map_of fs k = Some v \<and> v \<noteq> JNull \<longrightarrow>
           add_f (init\<lparr>samples := ss\<rparr>) (JObj fs) =
           Inr (init\<lparr>samples := ss @
                  [\<lparr>s_name = nm, s_labels = [(''id'', i)], s_value = v\<rparr>]\<rparr>)))
   \<and> (\<forall>i. map_of fs ''nodeId'' = Some i \<longrightarrow>
        (map_of fs ''payoutStatus'' = None \<longrightarrow>
           NodePayoutInfoMetric_add (NodePayoutInfoMetric_init\<lparr>samples := ss\<rparr>) (JObj fs) =
           Inl KeyError)
        \<and> (\<forall>status. map_of fs ''payoutStatus'' = Some status \<longrightarrow>
             NodePayoutInfoMetric_add (NodePayoutInfoMetric_init\<lparr>samples := ss\<rparr>) (JObj fs) =
             Inr (NodePayoutInfoMetric_init\<lparr>samples := ss @
                    [\<lparr>s_name = ''saturn_node_payout_info'',
                      s_labels = [(''id'', i), (''status'', status)],
                      s_value = JInt 1\<rparr>]\<rparr>)))"
proof (intro conjI)
  show "\<forall>(add_f, init, k, nm) \<in> set
       [(NodeEstimatedEarningsMetric_add, NodeEstimatedEarningsMetric_init,
           ''filAmount'', ''saturn_node_estimated_earnings_fil_total''),
        (NodeUptimeCompletionMetric_add, NodeUptimeCompletionMetric_init,
           ''uptimeCompletion'', ''saturn_node_uptime_completion_ratio''),
        (NodeRetrievalsMetric_add, NodeRetrievalsMetric_init,
           ''numRequests'', ''saturn_node_retrievals_total''),
        (NodeBandwidthServedMetric_add, NodeBandwidthServedMetric_init,
           ''numBytes'', ''saturn_node_bandwidth_served_bytes_total'')].
      (map_of fs k = None \<or> map_of fs k = Some JNull \<longrightarrow>
         add_f (init\<lparr>samples := ss\<rparr>) (JObj fs) = Inr (init\<lparr>samples := ss\<rparr>))
      \<and> (\<forall>i v. map_of fs ''nodeId'' = Some i \<and> map_of fs k = Some v \<and> v \<noteq> JNull \<longrightarrow>
           add_f (init\<lparr>samples := ss\<rparr>) (JObj fs) =
           Inr (init\<lparr>samples := ss @
                  [\<lparr>s_name = nm, s_labels = [(''id'', i)], s_value = v\<rparr>]\<rparr>))"
    by (auto simp add: NodeEstimatedEarningsMetric_add_def NodeEstimatedEarningsMetric_init_def
        NodeUptimeCompletionMetric_add_def NodeUptimeCompletionMetric_init_def
        NodeRetrievalsMetric_add_def NodeRetrievalsMetric_init_def
        NodeBandwidthServedMetric_add_def NodeBandwidthServedMetric_init_def
        gauge_add_metric_def counter_add_metric_def)
next
  show "\<forall>i. map_of fs ''nodeId'' = Some i \<longrightarrow>
        (map_of fs ''payoutStatus'' = None \<longrightarrow>
           NodePayoutInfoMetric_add (NodePayoutInfoMetric_init\<lparr>samples := ss\<rparr>) (JObj fs) =
           Inl KeyError)
        \<and> (\<forall>status. map_of fs ''payoutStatus'' = Some status \<longrightarrow>
             NodePayoutInfoMetric_add (NodePayoutInfoMetric_init\<lparr>samples := ss\<rparr>) (JObj fs) =
             Inr (NodePayoutInfoMetric_init\<lparr>samples := ss @
                    [\<lparr>s_name = ''saturn_node_payout_info'',
                      s_labels = [(''id'', i), (''status'', status)],
                      s_value = JInt 1\<rparr>]\<rparr>))"
    by (simp add: NodePayoutInfoMetric_add_def NodePayoutInfoMetric_init_def
        info_add_metric_def dict_update_def)
qed

theorem earnings_optional_fields_witness:
  "NodeEstimatedEarningsMetric_add NodeEstimatedEarningsMetric_init
     (JObj [(''nodeId'', JStr ''n1''), (''payoutStatus'', JStr ''valid''),
            (''filAmount'', JInt 5)]) =
   Inr (NodeEstimatedEarningsMetric_init\<lparr>samples :=
     [\<lparr>s_name = ''saturn_node_estimated_earnings_fil_total'',
       s_labels = [(''id'', JStr ''n1'')], s_value = JInt 5\<rparr>]\<rparr>)
   \<and> NodeBandwidthServedMetric_add NodeBandwidthServedMetric_init
     (JObj [(''nodeId'', JStr ''n1''), (''payoutStatus'', JStr ''valid''),
            (''filAmount'', JInt 5)]) =
   Inr NodeBandwidthServedMetric_init
   \<and> NodePayoutInfoMetric_add NodePayoutInfoMetric_init
     (JObj [(''nodeId'', JStr ''n1''), (''payoutStatus'', JStr ''valid''),
            (''filAmount'', JInt 5)]) =
   Inr (NodePayoutInfoMetric_init\<lparr>samples :=
     [\<lparr>s_name = ''saturn_node_payout_info'',
       s_labels = [(''id'', JStr ''n1''), (''status'', JStr ''valid'')],
       s_value = JInt 1\<rparr>]\<rparr>)"
  using earnings_optional_fields
    [of "[(''nodeId'', JStr ''n1''), (''payoutStatus'', JStr ''valid''),
          (''filAmount'', JInt 5)]" "[]"]
  by (simp add: NodeEstimatedEarningsMetric_init_def NodeBandwidthServedMetric_init_def
      NodePayoutInfoMetric_init_def)

subsection \<open>Requirements\<close>

lemma requirement_add_init:
  "requirement_add m (JObj r) k =
     (case map_of r k of
        None \<Rightarrow> Inl KeyError
      | Some v \<Rightarrow> Inr (m\<lparr>samples := samples m @
                        [\<lparr>s_name = name m, s_labels = [], s_value = v\<rparr>]\<rparr>))"
  by (simp add: requirement_add_def gauge_add_metric_def split: option.splits)

lemmas requirements_defs =
  node_requirements_metrics_def RequirementsCollector_metrics_def add_def
  NodeRequirementsMinCPUCoresMetric_init_def NodeRequirementsMinCPUCoresMetric_add_def
  NodeRequirementsMinMemoryMetric_init_def NodeRequirementsMinMemoryMetric_add_def
  NodeRequirementsMinUploadSpeedMetric_init_def NodeRequirementsMinUploadSpeedMetric_add_def
  NodeRequirementsMinDownloadSpeedMetric_init_def
  NodeRequirementsMinDownloadSpeedMetric_add_def
  NodeRequirementsMinDiskMetric_init_def NodeRequirementsMinDiskMetric_add_def
  NodeRequirementsLastVersionMetric_init_def NodeRequirementsLastVersionMetric_add_def
  NodeRequirementsMinVersionMetric_init_def NodeRequirementsMinVersionMetric_add_def

text \<open>
  Claim C8. For a requirements record with all seven fields the collector returns its
  seven families, each with exactly one sample without labels that holds the value of
  the family's field; for a record that lacks one of the seven fields it raises
  \<^verbatim>\<open>KeyError\<close> and returns no family.
\<close>

theorem requirements_all_or_error:
  "((\<forall>k \<in> set [''minCPUCores'', ''minMemoryGB'', ''minUploadSpeedMbps'',
                 ''minDownloadSpeedMbps'', ''minDiskGB'', ''lastVersion'', ''minVersion''].
       map_of r k \<noteq> None) \<longrightarrow>
     node_requirements_metrics env (JObj r) =
     Inr (map (\<lambda>(m, k). m\<lparr>samples :=
                 [\<lparr>s_name = name m, s_labels = [], s_value = the (map_of r k)\<rparr>]\<rparr>)
           (zip RequirementsCollector_metrics
              [''minCPUCores'', ''minMemoryGB'', ''minUploadSpeedMbps'',
               ''minDownloadSpeedMbps'', ''minDiskGB'', ''lastVersion'', ''minVersion''])))
   \<and> ((\<exists>k \<in> set [''minCPUCores'', ''minMemoryGB'', ''minUploadSpeedMbps'',
                  ''minDownloadSpeedMbps'', ''minDiskGB'', ''lastVersion'', ''minVersion''].
        map_of r k = None) \<longrightarrow>
      node_requirements_metrics env (JObj r) = Inl KeyError)"
proof (intro conjI impI)
  assume "\<forall>k \<in> set [''minCPUCores'', ''minMemoryGB'', ''minUploadSpeedMbps'',
                 ''minDownloadSpeedMbps'', ''minDiskGB'', ''lastVersion'', ''minVersion''].
       map_of r k \<noteq> None"
  then show "node_requirements_metrics env (JObj r) =
     Inr (map (\<lambda>(m, k). m\<lparr>samples :=
                 [\<lparr>s_name = name m, s_labels = [], s_value = the (map_of r k)\<rparr>]\<rparr>)
           (zip RequirementsCollector_metrics
              [''minCPUCores'', ''minMemoryGB'', ''minUploadSpeedMbps'',
               ''minDownloadSpeedMbps'', ''minDiskGB'', ''lastVersion'', ''minVersion'']))"
    by (auto simp add: requirements_defs requirement_add_init)
next
  assume "\<exists>k \<in> set [''minCPUCores'', ''minMemoryGB'', ''minUploadSpeedMbps'',
                  ''minDownloadSpeedMbps'', ''minDiskGB'', ''lastVersion'', ''minVersion''].
        map_of r k = None"
  then show "node_requirements_metrics env (JObj r) = Inl KeyError"
    by (auto simp add: requirements_defs requirement_add_init split: option.splits)
qed

theorem requirements_all_or_error_witness:
  "node_requirements_metrics utc_env
     (JObj [(''minCPUCores'', JInt 6), (''minMemoryGB'', JInt 32),
            (''minUploadSpeedMbps'', JInt 10000), (''minDownloadSpeedMbps'', JInt 10000),
            (''minDiskGB'', JInt 1000), (''lastVersion'', JInt 1093),
            (''minVersion'', JInt 1080)]) =
   Inr [NodeRequirementsMinCPUCoresMetric_init\<lparr>samples :=
          [\<lparr>s_name = ''saturn_node_requirements_min_cpu_cores'', s_labels = [],
            s_value = JInt 6\<rparr>]\<rparr>,
        NodeRequirementsMinMemoryMetric_init\<lparr>samples :=
          [\<lparr>s_name = ''saturn_node_requirements_min_memory_gigabytes'', s_labels = [],
            s_value = JInt 32\<rparr>]\<rparr>,
        NodeRequirementsMinUploadSpeedMetric_init\<lparr>samples :=
          [\<lparr>s_name = ''saturn_node_requirements_min_upload_speed_mbps'', s_labels = [],
            s_value = JInt 10000\<rparr>]\<rparr>,
        NodeRequirementsMinDownloadSpeedMetric_init\<lparr>samples :=
          [\<lparr>s_name = ''saturn_node_requirements_min_download_speed_mbps'', s_labels = [],
            s_value = JInt 10000\<rparr>]\<rparr>,
        NodeRequirementsMinDiskMetric_init\<lparr>samples :=
          [\<lparr>s_name = ''saturn_node_requirements_min_disk_gigabytes'', s_labels = [],
            s_value = JInt 1000\<rparr>]\<rparr>,
        NodeRequirementsLastVersionMetric_init\<lparr>samples :=
          [\<lparr>s_name = ''saturn_node_requirements_last_version'', s_labels = [],
            s_value = JInt 1093\<rparr>]\<rparr>,
        NodeRequirementsMinVersionMetric_init\<lparr>samples :=
          [\<lparr>s_name = ''saturn_node_requirements_min_version'', s_labels = [],
            s_value = JInt 1080\<rparr>]\<rparr>]
   \<and> node_requirements_metrics utc_env
       (JObj [(''minCPUCores'', JInt 6), (''minMemoryGB'', JInt 32),
              (''minUploadSpeedMbps'', JInt 10000), (''minDownloadSpeedMbps'', JInt 10000),
              (''lastVersion'', JInt 1093), (''minVersion'', JInt 1080)]) = Inl KeyError"
  using requirements_all_or_error
    [of "[(''minCPUCores'', JInt 6), (''minMemoryGB'', JInt 32),
          (''minUploadSpeedMbps'', JInt 10000), (''minDownloadSpeedMbps'', JInt 10000),
          (''minDiskGB'', JInt 1000), (''lastVersion'', JInt 1093),
          (''minVersion'', JInt 1080)]" utc_env]
    requirements_all_or_error
    [of "[(''minCPUCores'', JInt 6), (''minMemoryGB'', JInt 32),
          (''minUploadSpeedMbps'', JInt 10000), (''minDownloadSpeedMbps'', JInt 10000),
          (''lastVersion'', JInt 1093), (''minVersion'', JInt 1080)]" utc_env]
  by (simp add: RequirementsCollector_metrics_def
      NodeRequirementsMinCPUCoresMetric_init_def NodeRequirementsMinMemoryMetric_init_def
      NodeRequirementsMinUploadSpeedMetric_init_def
      NodeRequirementsMinDownloadSpeedMetric_init_def NodeRequirementsMinDiskMetric_init_def
      NodeRequirementsLastVersionMetric_init_def NodeRequirementsMinVersionMetric_init_def)

subsection \<open>No state between calls\<close>

lemma upt_block_Cons: "[n..<n + Suc k] = n # [Suc n..<Suc n + k]"
  by (simp add: upt_conv_Cons del: upt_Suc)

lemma new_objects_append:
  "new_objects ms s = ([length s..<length s + length ms], s @ ms)"
proof (induction ms arbitrary: s)
  case Nil
  then show ?case by simp
next
  case (Cons m ms)
  have "[length s..<length s + length (m # ms)] =
          length s # [length (s @ [m])..<length (s @ [m]) + length ms]"
    using upt_block_Cons[of "length s" "length ms"] by simp
  then show ?case
    using Cons.IH[of "s @ [m]"] by (simp add: new_object_def del: upt_Suc)
qed

lemma map_nth_block:
  "map (\<lambda>r. (pre @ xs) ! r) [length pre..<length pre + length xs] = xs"
  by (rule nth_equalityI) (simp_all add: nth_append)

lemma map_nth_append_left:
  "\<forall>r \<in> set rs. r < length xs \<Longrightarrow>
     map (\<lambda>r. (xs @ ys) ! r) rs = map (\<lambda>r. xs ! r) rs"
  by (simp add: nth_append)

lemma add_all_length:
  "add_all env ms node = Inr ms' \<Longrightarrow> length ms' = length ms"
proof (induction ms arbitrary: ms')
  case Nil
  then show ?case by simp
next
  case (Cons m ms)
  then show ?case by (auto elim!: py_bind_InrE)
qed

text \<open>
  On the objects of a block at the end of the store the loop over the references does
  what the loop over the families does, and it leaves the rest of the store alone.
\<close>

lemma add_all_st_block:
  "case add_all env todo node of
     Inl e \<Rightarrow> \<exists>todo'. length todo' = length todo \<and>
               add_all_st env [length pre..<length pre + length todo] node (pre @ todo) =
               (Inl e, pre @ todo')
   | Inr todo' \<Rightarrow>
       add_all_st env [length pre..<length pre + length todo] node (pre @ todo) =
       (Inr (), pre @ todo')"
proof (induction todo arbitrary: pre)
  case Nil
  then show ?case by simp
next
  case (Cons m ms)
  have refs: "[length pre..<length pre + length (m # ms)] =
          length pre # [length (pre @ [m'])..<length (pre @ [m']) + length ms]" for m' :: family
    using upt_block_Cons[of "length pre" "length ms"] by simp
  show ?case
  proof (cases "add env m node")
    case (Inl e)
    then show ?thesis
      unfolding refs[of m]
      by (auto simp del: upt_Suc intro: exI[of _ "m # ms"])
  next
    case (Inr m')
    have upd: "(pre @ m # ms)[length pre := m'] = (pre @ [m']) @ ms"
      by simp
    show ?thesis
    proof (cases "add_all env ms node")
      case (Inl e)
      with Cons.IH[of "pre @ [m']"] obtain todo' where
        "length todo' = length ms"
        "add_all_st env [length (pre @ [m'])..<length (pre @ [m']) + length ms] node
           ((pre @ [m']) @ ms) = (Inl e, (pre @ [m']) @ todo')"
        by auto
      then show ?thesis
        using Inr Inl upd unfolding refs[of m']
        by (auto simp del: upt_Suc intro!: exI[of _ "m' # todo'"])
    next
      case (Inr ms')
      with Cons.IH[of "pre @ [m']"] have
        "add_all_st env [length (pre @ [m'])..<length (pre @ [m']) + length ms] node
           ((pre @ [m']) @ ms) = (Inr (), (pre @ [m']) @ ms')"
        by auto
      then show ?thesis
        using \<open>add env m node = Inr m'\<close> Inr upd unfolding refs[of m']
        by (auto simp del: upt_Suc)
    qed
  qed
qed

lemma stats_loop_length:
  "stats_loop env self found ms stats = Inr (found', ms') \<Longrightarrow> length ms' = length ms"
proof (induction stats arbitrary: found ms)
  case Nil
  then show ?case by simp
next
  case (Cons node stats)
  from Cons.prems obtain skip where
    skip: "filtered_out (node_ids self) node ''id'' = Inr skip"
    by (auto elim!: py_bind_InrE simp del: add_all.simps)
  show ?case
  proof (cases skip)
    case True
    then show ?thesis using Cons.prems skip Cons.IH[of found ms] by simp
  next
    case False
    with Cons.prems skip obtain i ms1 where
      "add_all env ms node = Inr ms1"
      "stats_loop env self (set_add found i) ms1 stats = Inr (found', ms')"
      by (auto elim!: py_bind_InrE simp del: add_all.simps)
    then show ?thesis
      using Cons.IH[of "set_add found i" ms1] add_all_length[of env ms node ms1] by simp
  qed
qed

lemma stats_loop_st_block:
  "case stats_loop env self found ms stats of
     Inl e \<Rightarrow> \<exists>ms'. length ms' = length ms \<and>
               stats_loop_st env self found [length pre..<length pre + length ms] stats
                 (pre @ ms) = (Inl e, pre @ ms')
   | Inr (found', ms') \<Rightarrow>
       stats_loop_st env self found [length pre..<length pre + length ms] stats (pre @ ms) =
       (Inr found', pre @ ms')"
proof (induction stats arbitrary: found ms)
  case Nil
  then show ?case by simp
next
  case (Cons node stats)
  show ?case
  proof (cases "filtered_out (node_ids self) node ''id''")
    case (Inl e)
    then show ?thesis by (auto simp del: add_all.simps intro: exI[of _ ms])
  next
    case skip: (Inr skip)
    show ?thesis
    proof (cases skip)
      case True
      then show ?thesis
        using skip Cons.IH[where found = found and ms = ms]
        by (auto simp del: add_all.simps split: sum.splits)
    next
      case False
      show ?thesis
      proof (cases "py_bind (getitem node ''id'') (\<lambda>i. py_bind (py_hash i) (\<lambda>_. Inr i))")
        case (Inl e)
        then have "stats_loop env self found ms (node # stats) = Inl e"
          using skip False
          by (cases "getitem node ''id''"; cases "py_hash (projr (getitem node ''id''))")
            (auto simp del: add_all.simps)
        then show ?thesis
          using Inl skip False by (auto intro: exI[of _ ms])
      next
        case i: (Inr i)
        then have pure: "stats_loop env self found ms (node # stats) =
            py_bind (add_all env ms node)
              (\<lambda>ms1. stats_loop env self (set_add found i) ms1 stats)"
          using skip False
          by (cases "getitem node ''id''"; cases "py_hash (projr (getitem node ''id''))")
            (auto simp del: add_all.simps)
        show ?thesis
        proof (cases "add_all env ms node")
          case (Inl e)
          with add_all_st_block[where env = env and todo = ms and node = node and pre = pre] obtain ms' where
            "length ms' = length ms"
            "add_all_st env [length pre..<length pre + length ms] node (pre @ ms) =
               (Inl e, pre @ ms')"
            by auto
          then show ?thesis
            using Inl pure skip False i by (auto simp del: add_all.simps)
        next
          case (Inr ms1)
          with add_all_st_block[where env = env and todo = ms and node = node and pre = pre] have
            st: "add_all_st env [length pre..<length pre + length ms] node (pre @ ms) =
               (Inr (), pre @ ms1)"
            by auto
          have len: "length ms1 = length ms"
            using Inr by (rule add_all_length)
          show ?thesis
            using Cons.IH[where found = "set_add found i" and ms = ms1] Inr pure skip False i st len
            by (auto simp del: add_all.simps split: sum.splits)
        qed
      qed
    qed
  qed
qed

lemma foldl_add_inactive_st:
  "foldl (\<lambda>s i. s[length pre := NodeInfoMetric_add_inactive (s ! length pre) i])
     (pre @ m # rest) xs =
   pre @ foldl NodeInfoMetric_add_inactive m xs # rest"
  by (induction xs arbitrary: m) simp_all

lemma length_StatsCollector_metrics: "length StatsCollector_metrics = 27"
  by (simp add: StatsCollector_metrics_def)

text \<open>
  A call on any store appends its 27 objects to the store and touches nothing else;
  behind the references it returns are the families that the function of the records
  alone, \<open>node_metrics_from_stats\<close>, computes.
\<close>

lemma node_metrics_from_stats_st_refines:
  "\<exists>final. length final = 27
     \<and> snd (node_metrics_from_stats_st env self stats s) = s @ final
     \<and> (case node_metrics_from_stats env self stats of
          Inl e \<Rightarrow> fst (node_metrics_from_stats_st env self stats s) = Inl e
        | Inr ms \<Rightarrow>
            fst (node_metrics_from_stats_st env self stats s) =
              Inr [length s..<length s + 27] \<and> final = ms)"
proof (cases "stats_loop env self [] StatsCollector_metrics stats")
  case (Inl e)
  with stats_loop_st_block
    [where env = env and self = self and found = "[]" and ms = StatsCollector_metrics
       and stats = stats and pre = s]
  obtain ms' where "length ms' = 27"
    "stats_loop_st env self [] [length s..<length s + 27] stats (s @ StatsCollector_metrics) =
       (Inl e, s @ ms')"
    by (auto simp add: length_StatsCollector_metrics)
  then show ?thesis
    using Inl
    by (auto simp add: node_metrics_from_stats_st_def node_metrics_from_stats_def
        new_objects_append length_StatsCollector_metrics)
next
  case (Inr r)
  obtain found ms' where r: "r = (found, ms')" by (cases r)
  have len: "length ms' = 27"
    using Inr r stats_loop_length[of env self "[]" StatsCollector_metrics stats found ms']
    by (simp add: length_StatsCollector_metrics)
  then obtain m rest where ms': "ms' = m # rest" by (cases ms') auto
  have st: "stats_loop_st env self [] [length s..<length s + 27] stats
              (s @ StatsCollector_metrics) = (Inr found, s @ ms')"
    using Inr r stats_loop_st_block
      [where env = env and self = self and found = "[]" and ms = StatsCollector_metrics
         and stats = stats and pre = s]
    by (auto simp add: length_StatsCollector_metrics)
  have hd: "hd [length s..<length s + 27] = length s"
    by (simp add: upt_conv_Cons del: upt_Suc)
  show ?thesis
    using len
    by (intro exI[of _ "add_inactive_all env self found ms'"])
      (simp add: node_metrics_from_stats_st_def node_metrics_from_stats_def
        new_objects_append length_StatsCollector_metrics st Inr r hd ms'
        foldl_add_inactive_st add_inactive_all_def del: upt_Suc)
qed

lemma node_metrics_from_stats_st_result:
  assumes "node_metrics_from_stats_st env self stats s = (r, s')"
  shows "\<exists>final. length final = 27 \<and> s' = s @ final
     \<and> (case node_metrics_from_stats env self stats of
          Inl e \<Rightarrow> r = Inl e
        | Inr ms \<Rightarrow> r = Inr [length s..<length s + 27] \<and> final = ms)"
  using node_metrics_from_stats_st_refines[of env self stats s] assms
  by (cases "node_metrics_from_stats env self stats") (auto simp del: upt_Suc)

text \<open>
  Claim C9. The families are objects in a store that every call of the snapshot assembly
  shares with the calls before it. Whatever the store holds, a call returns the families
  (name, type, label names and samples in order) or the error that the allow-list and the
  records alone determine; a second call on the store that the first one left behind
  returns the same families with the same samples in the same order, and it leaves the
  families of the first call as they were.
\<close>

theorem snapshot_free_of_hidden_state:
  "node_metrics_from_stats_st env self stats s = (r1, s1) \<and>
   node_metrics_from_stats_st env self stats s1 = (r2, s2) \<longrightarrow>
     deref s2 r2 = deref s1 r1
     \<and> deref s2 r1 = deref s1 r1
     \<and> deref s1 r1 = node_metrics_from_stats env self stats"
proof
  assume h: "node_metrics_from_stats_st env self stats s = (r1, s1) \<and>
   node_metrics_from_stats_st env self stats s1 = (r2, s2)"
  from h node_metrics_from_stats_st_result[of env self stats s r1 s1] obtain f1 where
    f1: "length f1 = 27" "s1 = s @ f1"
      "case node_metrics_from_stats env self stats of
          Inl e \<Rightarrow> r1 = Inl e
        | Inr ms \<Rightarrow> r1 = Inr [length s..<length s + 27] \<and> f1 = ms"
    by blast
  from h node_metrics_from_stats_st_result[of env self stats s1 r2 s2] obtain f2 where
    f2: "length f2 = 27" "s2 = s1 @ f2"
      "case node_metrics_from_stats env self stats of
          Inl e \<Rightarrow> r2 = Inl e
        | Inr ms \<Rightarrow> r2 = Inr [length s1..<length s1 + 27] \<and> f2 = ms"
    by blast
  show "deref s2 r2 = deref s1 r1 \<and> deref s2 r1 = deref s1 r1
     \<and> deref s1 r1 = node_metrics_from_stats env self stats"
  proof (cases "node_metrics_from_stats env self stats")
    case (Inl e)
    then show ?thesis using f1 f2 by simp
  next
    case (Inr ms)
    then have r1: "r1 = Inr [length s..<length s + length ms]"
      and r2: "r2 = Inr [length s1..<length s1 + length ms]"
      and ms: "f1 = ms" "f2 = ms" "length ms = 27"
      using f1 f2 by auto
    have a: "deref s1 r1 = Inr ms"
      using map_nth_block[of s ms] by (simp add: r1 f1(2) ms del: upt_Suc)
    have b: "deref s2 r2 = Inr ms"
      using map_nth_block[of s1 ms] by (simp add: r2 f2(2) ms del: upt_Suc)
    have "\<forall>r \<in> set [length s..<length s + length ms]. r < length s1"
      by (simp add: f1(2) ms)
    then have "map (\<lambda>r. (s1 @ f2) ! r) [length s..<length s + length ms] =
          map (\<lambda>r. s1 ! r) [length s..<length s + length ms]"
      by (rule map_nth_append_left)
    then have c: "deref s2 r1 = deref s1 r1"
      by (simp add: r1 f2(2) del: upt_Suc)
    show ?thesis using a b c Inr by simp
  qed
qed

lemma example_snapshot:
  "\<exists>rest. node_metrics_from_stats utc_env (StatsCollector_init [''A'', ''B'', ''C''])
            [example_node ''A''] =
     Inr (NodeInfoMetric_init\<lparr>samples :=
       [\<lparr>s_name = ''saturn_node_info'',
         s_labels =
           [(''id'', JStr ''A''), (''id_short'', JStr ''A''),
            (''state'', JStr ''active''), (''core'', JStr ''false''),
            (''ip_address'', JStr ''192.0.2.1''), (''sunrise'', JStr ''true''),
            (''cassini'', JStr ''false''), (''geoloc_region'', JStr ''EU''),
            (''geoloc_city'', JStr ''Kyiv''), (''geoloc_country'', JStr ''Ukraine''),
            (''geoloc_country_code'', JStr ''UA'')],
         s_value = JInt 1\<rparr>,
        inactive_sample ''B'', inactive_sample ''C'']\<rparr> # rest)"
proof -
  from example_add_all obtain rest where
    r: "add_all utc_env StatsCollector_metrics (example_node ''A'') =
     Inr (NodeInfoMetric_init\<lparr>samples :=
       [\<lparr>s_name = ''saturn_node_info'',
         s_labels =
           [(''id'', JStr ''A''), (''id_short'', JStr ''A''),
            (''state'', JStr ''active''), (''core'', JStr ''false''),
            (''ip_address'', JStr ''192.0.2.1''), (''sunrise'', JStr ''true''),
            (''cassini'', JStr ''false''), (''geoloc_region'', JStr ''EU''),
            (''geoloc_city'', JStr ''Kyiv''), (''geoloc_country'', JStr ''Ukraine''),
            (''geoloc_country_code'', JStr ''UA'')],
         s_value = JInt 1\<rparr>]\<rparr> # rest)"
    by blast
  have i: "getitem (example_node ''A'') ''id'' = Inr (JStr ''A'')"
    by (simp add: example_node_def)
  have it: "set_iter utc_env = (\<lambda>xs. xs)"
    by (simp add: utc_env_def)
  show ?thesis
    by (intro exI[of _ rest])
      (simp add: node_metrics_from_stats_def StatsCollector_init_def filtered_out_def i
        py_in_def set_add_def r it add_inactive_all_def NodeInfoMetric_add_inactive_def
        info_add_metric_def dict_update_def inactive_sample_def NodeInfoMetric_init_def
        del: add_all.simps)
qed

theorem snapshot_free_of_hidden_state_witness:
  "\<exists>r1 s1 r2 s2 ms.
     node_metrics_from_stats_st utc_env (StatsCollector_init [''A'', ''B'', ''C''])
       [example_node ''A'']
       [NodeInfoMetric_init\<lparr>samples := [inactive_sample ''Z'']\<rparr>] = (r1, s1)
     \<and> node_metrics_from_stats_st utc_env (StatsCollector_init [''A'', ''B'', ''C''])
         [example_node ''A''] s1 = (r2, s2)
     \<and> deref s1 r1 = Inr ms \<and> deref s2 r2 = Inr ms \<and> deref s2 r1 = Inr ms
     \<and> samples (hd ms) =
       [\<lparr>s_name = ''saturn_node_info'',
         s_labels =
           [(''id'', JStr ''A''), (''id_short'', JStr ''A''),
            (''state'', JStr ''active''), (''core'', JStr ''false''),
            (''ip_address'', JStr ''192.0.2.1''), (''sunrise'', JStr ''true''),
            (''cassini'', JStr ''false''), (''geoloc_region'', JStr ''EU''),
            (''geoloc_city'', JStr ''Kyiv''), (''geoloc_country'', JStr ''Ukraine''),
            (''geoloc_country_code'', JStr ''UA'')],
         s_value = JInt 1\<rparr>,
        inactive_sample ''B'', inactive_sample ''C'']"
proof -
  obtain r1 s1 where
    a: "node_metrics_from_stats_st utc_env (StatsCollector_init [''A'', ''B'', ''C''])
          [example_node ''A'']
          [NodeInfoMetric_init\<lparr>samples := [inactive_sample ''Z'']\<rparr>] = (r1, s1)"
    by (rule prod.exhaust)
  obtain r2 s2 where
    b: "node_metrics_from_stats_st utc_env (StatsCollector_init [''A'', ''B'', ''C''])
          [example_node ''A''] s1 = (r2, s2)"
    by (rule prod.exhaust)
  from example_snapshot obtain rest where
    p: "node_metrics_from_stats utc_env (StatsCollector_init [''A'', ''B'', ''C''])
            [example_node ''A''] =
     Inr (NodeInfoMetric_init\<lparr>samples :=
       [\<lparr>s_name = ''saturn_node_info'',
         s_labels =
           [(''id'', JStr ''A''), (''id_short'', JStr ''A''),
            (''state'', JStr ''active''), (''core'', JStr ''false''),
            (''ip_address'', JStr ''192.0.2.1''), (''sunrise'', JStr ''true''),
            (''cassini'', JStr ''false''), (''geoloc_region'', JStr ''EU''),
            (''geoloc_city'', JStr ''Kyiv''), (''geoloc_country'', JStr ''Ukraine''),
            (''geoloc_country_code'', JStr ''UA'')],
         s_value = JInt 1\<rparr>,
        inactive_sample ''B'', inactive_sample ''C'']\<rparr> # rest)"
    by blast
  define ms where "ms = NodeInfoMetric_init\<lparr>samples :=
       [\<lparr>s_name = ''saturn_node_info'',
         s_labels =
           [(''id'', JStr ''A''), (''id_short'', JStr ''A''),
            (''state'', JStr ''active''), (''core'', JStr ''false''),
            (''ip_address'', JStr ''192.0.2.1''), (''sunrise'', JStr ''true''),
            (''cassini'', JStr ''false''), (''geoloc_region'', JStr ''EU''),
            (''geoloc_city'', JStr ''Kyiv''), (''geoloc_country'', JStr ''Ukraine''),
            (''geoloc_country_code'', JStr ''UA'')],
         s_value = JInt 1\<rparr>,
        inactive_sample ''B'', inactive_sample ''C'']\<rparr> # rest"
  have "deref s2 r2 = deref s1 r1 \<and> deref s2 r1 = deref s1 r1 \<and>
        deref s1 r1 =
          node_metrics_from_stats utc_env (StatsCollector_init [''A'', ''B'', ''C''])
            [example_node ''A'']"
    using snapshot_free_of_hidden_state
      [of utc_env "StatsCollector_init [''A'', ''B'', ''C'']" "[example_node ''A'']"
          "[NodeInfoMetric_init\<lparr>samples := [inactive_sample ''Z'']\<rparr>]" r1 s1 r2 s2]
      a b
    by blast
  then have d: "deref s1 r1 = Inr ms \<and> deref s2 r2 = Inr ms \<and> deref s2 r1 = Inr ms"
    using p by (simp add: ms_def)
  have h: "samples (hd ms) =
       [\<lparr>s_name = ''saturn_node_info'',
         s_labels =
           [(''id'', JStr ''A''), (''id_short'', JStr ''A''),
            (''state'', JStr ''active''), (''core'', JStr ''false''),
            (''ip_address'', JStr ''192.0.2.1''), (''sunrise'', JStr ''true''),
            (''cassini'', JStr ''false''), (''geoloc_region'', JStr ''EU''),
            (''geoloc_city'', JStr ''Kyiv''), (''geoloc_country'', JStr ''Ukraine''),
            (''geoloc_country_code'', JStr ''UA'')],
         s_value = JInt 1\<rparr>,
        inactive_sample ''B'', inactive_sample ''C'']"
    by (simp add: ms_def)
  show ?thesis
    using a b d h by blast
qed

subsection \<open>Empty sub-records\<close>

lemma map_of_filter_key:
  "map_of (filter (\<lambda>kv. fst kv \<noteq> k) fs) k' = (if k' = k then None else map_of fs k')"
  by (induction fs) auto

lemma getitem_filter_key:
  "k' \<noteq> k \<Longrightarrow> getitem (JObj (filter (\<lambda>kv. fst kv \<noteq> k) fs)) k' = getitem (JObj fs) k'"
  by (simp add: map_of_filter_key)

lemma dict_get_filter_key:
  "dict_get (JObj (filter (\<lambda>kv. fst kv \<noteq> k) fs)) k = Inr JNull"
  by (simp add: map_of_filter_key)

lemma NodeInfoMetric_add_no_speedtest:
  assumes "\<not> truthy (case map_of fs ''speedtest'' of None \<Rightarrow> JNull | Some v \<Rightarrow> v)"
    and "NodeInfoMetric_add env (NodeInfoMetric_init\<lparr>samples := ss\<rparr>) (JObj fs) = Inr self'"
  shows "\<exists>s. samples self' = ss @ [s] \<and>
     map fst (s_labels s) =
       [''id'', ''id_short'', ''state'', ''core'', ''ip_address'', ''sunrise'', ''cassini'',
        ''geoloc_region'', ''geoloc_city'', ''geoloc_country'', ''geoloc_country_code'']"
  using assms(2) unfolding NodeInfoMetric_add_def Let_def
  apply (elim py_bind_InrE)
  using assms(1)
  apply (auto simp add: info_add_metric_def dict_update_def NodeInfoMetric_init_def)
  done

text \<open>
  Claim C10. A \<^verbatim>\<open>speedtest\<close> sub-record that is an empty dict is treated like a missing
  one: the three speedtest families add no sample, and the info family does what it does
  for the record without the key, so the sample it adds has the eleven labels of a record
  without speedtest and none of the three \<^verbatim>\<open>sppedtest_\<close> labels. A \<^verbatim>\<open>ttfbStats\<close> sub-record
  that is an empty dict is treated like a missing one: the quantile and the
  request-outcome family add no sample.
\<close>

theorem empty_subrecord_like_absent:
  "(map_of fs ''speedtest'' = Some (JObj []) \<longrightarrow>
      NodeSpeedtestUploadBandwidthMetric_add self (JObj fs) = Inr self
      \<and> NodeSpeedtestDownloadBandwidthMetric_add self (JObj fs) = Inr self
      \<and> NodeSpeedtestPingLatencyMetric_add self (JObj fs) = Inr self
      \<and> NodeInfoMetric_add env (NodeInfoMetric_init\<lparr>samples := ss\<rparr>) (JObj fs) =
        NodeInfoMetric_add env (NodeInfoMetric_init\<lparr>samples := ss\<rparr>)
          (JObj (filter (\<lambda>kv. fst kv \<noteq> ''speedtest'') fs))
      \<and> (\<forall>self'. NodeInfoMetric_add env (NodeInfoMetric_init\<lparr>samples := ss\<rparr>) (JObj fs) =
                    Inr self' \<longrightarrow>
            (\<exists>s. samples self' = ss @ [s] \<and>
                 map fst (s_labels s) =
                   [''id'', ''id_short'', ''state'', ''core'', ''ip_address'', ''sunrise'',
                    ''cassini'', ''geoloc_region'', ''geoloc_city'', ''geoloc_country'',
                    ''geoloc_country_code''])))
   \<and> (map_of fs ''ttfbStats'' = Some (JObj []) \<longrightarrow>
        NodeResponseDurationMetric_add self (JObj fs) = Inr self
        \<and> NodeRequestsMetric_add self (JObj fs) = Inr self
        \<and> NodeResponseDurationMetric_add self (JObj fs) =
          NodeResponseDurationMetric_add self (JObj (filter (\<lambda>kv. fst kv \<noteq> ''ttfbStats'') fs))
        \<and> NodeRequestsMetric_add self (JObj fs) =
          NodeRequestsMetric_add self (JObj (filter (\<lambda>kv. fst kv \<noteq> ''ttfbStats'') fs)))"
proof (intro conjI impI allI)
  assume h: "map_of fs ''speedtest'' = Some (JObj [])"
  show "NodeSpeedtestUploadBandwidthMetric_add self (JObj fs) = Inr self"
    using h by (simp add: NodeSpeedtestUploadBandwidthMetric_add_def speedtest_add_def)
  show "NodeSpeedtestDownloadBandwidthMetric_add self (JObj fs) = Inr self"
    using h by (simp add: NodeSpeedtestDownloadBandwidthMetric_add_def speedtest_add_def)
  show "NodeSpeedtestPingLatencyMetric_add self (JObj fs) = Inr self"
    using h by (simp add: NodeSpeedtestPingLatencyMetric_add_def speedtest_add_def)
  show "NodeInfoMetric_add env (NodeInfoMetric_init\<lparr>samples := ss\<rparr>) (JObj fs) =
        NodeInfoMetric_add env (NodeInfoMetric_init\<lparr>samples := ss\<rparr>)
          (JObj (filter (\<lambda>kv. fst kv \<noteq> ''speedtest'') fs))"
  proof -
    have g: "dict_get (JObj fs) ''speedtest'' = Inr (JObj [])"
      using h by simp
    show ?thesis
      unfolding NodeInfoMetric_add_def
      by (simp add: g getitem_filter_key dict_get_filter_key
          del: getitem.simps dict_get.simps)
  qed
  fix self'
  assume "NodeInfoMetric_add env (NodeInfoMetric_init\<lparr>samples := ss\<rparr>) (JObj fs) = Inr self'"
  then show "\<exists>s. samples self' = ss @ [s] \<and>
                 map fst (s_labels s) =
                   [''id'', ''id_short'', ''state'', ''core'', ''ip_address'', ''sunrise'',
                    ''cassini'', ''geoloc_region'', ''geoloc_city'', ''geoloc_country'',
                    ''geoloc_country_code'']"
    using h NodeInfoMetric_add_no_speedtest[of fs env ss self'] by simp
next
  assume h: "map_of fs ''ttfbStats'' = Some (JObj [])"
  show a: "NodeResponseDurationMetric_add self (JObj fs) = Inr self"
    using h by (simp add: NodeResponseDurationMetric_add_def)
  show b: "NodeRequestsMetric_add self (JObj fs) = Inr self"
    using h by (simp add: NodeRequestsMetric_add_def)
  show "NodeResponseDurationMetric_add self (JObj fs) =
          NodeResponseDurationMetric_add self (JObj (filter (\<lambda>kv. fst kv \<noteq> ''ttfbStats'') fs))"
    unfolding a by (simp add: NodeResponseDurationMetric_add_def map_of_filter_key)
  show "NodeRequestsMetric_add self (JObj fs) =
          NodeRequestsMetric_add self (JObj (filter (\<lambda>kv. fst kv \<noteq> ''ttfbStats'') fs))"
    unfolding b by (simp add: NodeRequestsMetric_add_def map_of_filter_key)
qed

theorem empty_subrecord_like_absent_witness:
  "NodeSpeedtestUploadBandwidthMetric_add NodeSpeedtestUploadBandwidthMetric_init
     (JObj [(''id'', JStr ''0123456789abcdef''), (''state'', JStr ''active''),
            (''core'', JBool False), (''ipAddress'', JStr ''192.0.2.1''),
            (''sunrise'', JBool True), (''cassini'', JBool False),
            (''geoloc'', JObj [(''region'', JStr ''EU''), (''city'', JStr ''Kyiv''),
                              (''country'', JStr ''Ukraine''), (''countryCode'', JStr ''UA'')]),
            (''speedtest'', JObj []), (''ttfbStats'', JObj [])]) = Inr NodeSpeedtestUploadBandwidthMetric_init
   \<and> NodeSpeedtestDownloadBandwidthMetric_add NodeSpeedtestDownloadBandwidthMetric_init
     (JObj [(''id'', JStr ''0123456789abcdef''), (''state'', JStr ''active''),
            (''core'', JBool False), (''ipAddress'', JStr ''192.0.2.1''),
            (''sunrise'', JBool True), (''cassini'', JBool False),
            (''geoloc'', JObj [(''region'', JStr ''EU''), (''city'', JStr ''Kyiv''),
                              (''country'', JStr ''Ukraine''), (''countryCode'', JStr ''UA'')]),
            (''speedtest'', JObj []), (''ttfbStats'', JObj [])]) = Inr NodeSpeedtestDownloadBandwidthMetric_init
   \<and> NodeSpeedtestPingLatencyMetric_add NodeSpeedtestPingLatencyMetric_init
     (JObj [(''id'', JStr ''0123456789abcdef''), (''state'', JStr ''active''),
            (''core'', JBool False), (''ipAddress'', JStr ''192.0.2.1''),
            (''sunrise'', JBool True), (''cassini'', JBool False),
            (''geoloc'', JObj [(''region'', JStr ''EU''), (''city'', JStr ''Kyiv''),
                              (''country'', JStr ''Ukraine''), (''countryCode'', JStr ''UA'')]),
            (''speedtest'', JObj []), (''ttfbStats'', JObj [])]) = Inr NodeSpeedtestPingLatencyMetric_init
   \<and> NodeResponseDurationMetric_add NodeResponseDurationMetric_init
     (JObj [(''id'', JStr ''0123456789abcdef''), (''state'', JStr ''active''),
            (''core'', JBool False), (''ipAddress'', JStr ''192.0.2.1''),
            (''sunrise'', JBool True), (''cassini'', JBool False),
            (''geoloc'', JObj [(''region'', JStr ''EU''), (''city'', JStr ''Kyiv''),
                              (''country'', JStr ''Ukraine''), (''countryCode'', JStr ''UA'')]),
            (''speedtest'', JObj []), (''ttfbStats'', JObj [])]) = Inr NodeResponseDurationMetric_init
   \<and> NodeRequestsMetric_add NodeRequestsMetric_init
     (JObj [(''id'', JStr ''0123456789abcdef''), (''state'', JStr ''active''),
            (''core'', JBool False), (''ipAddress'', JStr ''192.0.2.1''),
            (''sunrise'', JBool True), (''cassini'', JBool False),
            (''geoloc'', JObj [(''region'', JStr ''EU''), (''city'', JStr ''Kyiv''),
                              (''country'', JStr ''Ukraine''), (''countryCode'', JStr ''UA'')]),
            (''speedtest'', JObj []), (''ttfbStats'', JObj [])]) = Inr NodeRequestsMetric_init
   \<and> NodeInfoMetric_add utc_env NodeInfoMetric_init
     (JObj [(''id'', JStr ''0123456789abcdef''), (''state'', JStr ''active''),
            (''core'', JBool False), (''ipAddress'', JStr ''192.0.2.1''),
            (''sunrise'', JBool True), (''cassini'', JBool False),
            (''geoloc'', JObj [(''region'', JStr ''EU''), (''city'', JStr ''Kyiv''),
                              (''country'', JStr ''Ukraine''), (''countryCode'', JStr ''UA'')]),
            (''speedtest'', JObj []), (''ttfbStats'', JObj [])]) =
     Inr (NodeInfoMetric_init\<lparr>samples :=
       [\<lparr>s_name = ''saturn_node_info'',
         s_labels =
           [(''id'', JStr ''0123456789abcdef''), (''id_short'', JStr ''01234567''),
            (''state'', JStr ''active''), (''core'', JStr ''false''),
            (''ip_address'', JStr ''192.0.2.1''), (''sunrise'', JStr ''true''),
            (''cassini'', JStr ''false''), (''geoloc_region'', JStr ''EU''),
            (''geoloc_city'', JStr ''Kyiv''), (''geoloc_country'', JStr ''Ukraine''),
            (''geoloc_country_code'', JStr ''UA'')],
         s_value = JInt 1\<rparr>]\<rparr>)"
proof -
  let ?r = "[(''id'', JStr ''0123456789abcdef''), (''state'', JStr ''active''),
            (''core'', JBool False), (''ipAddress'', JStr ''192.0.2.1''),
            (''sunrise'', JBool True), (''cassini'', JBool False),
            (''geoloc'', JObj [(''region'', JStr ''EU''), (''city'', JStr ''Kyiv''),
                              (''country'', JStr ''Ukraine''), (''countryCode'', JStr ''UA'')]),
            (''speedtest'', JObj []), (''ttfbStats'', JObj [])]"
  have "NodeSpeedtestUploadBandwidthMetric_add NodeSpeedtestUploadBandwidthMetric_init
          (JObj ?r) = Inr NodeSpeedtestUploadBandwidthMetric_init"
    using empty_subrecord_like_absent
      [of ?r NodeSpeedtestUploadBandwidthMetric_init utc_env "[]"] by simp
  moreover
  have "NodeSpeedtestDownloadBandwidthMetric_add NodeSpeedtestDownloadBandwidthMetric_init
          (JObj ?r) = Inr NodeSpeedtestDownloadBandwidthMetric_init"
    using empty_subrecord_like_absent
      [of ?r NodeSpeedtestDownloadBandwidthMetric_init utc_env "[]"] by simp
  moreover
  have "NodeSpeedtestPingLatencyMetric_add NodeSpeedtestPingLatencyMetric_init
          (JObj ?r) = Inr NodeSpeedtestPingLatencyMetric_init"
    using empty_subrecord_like_absent
      [of ?r NodeSpeedtestPingLatencyMetric_init utc_env "[]"] by simp
  moreover
  have "NodeResponseDurationMetric_add NodeResponseDurationMetric_init
          (JObj ?r) = Inr NodeResponseDurationMetric_init"
    using empty_subrecord_like_absent
      [of ?r NodeResponseDurationMetric_init utc_env "[]"] by simp
  moreover
  have "NodeRequestsMetric_add NodeRequestsMetric_init
          (JObj ?r) = Inr NodeRequestsMetric_init"
    using empty_subrecord_like_absent
      [of ?r NodeRequestsMetric_init utc_env "[]"] by simp
  moreover
  have "NodeInfoMetric_add utc_env NodeInfoMetric_init (JObj ?r) =
     Inr (NodeInfoMetric_init\<lparr>samples :=
       [\<lparr>s_name = ''saturn_node_info'',
         s_labels =
           [(''id'', JStr ''0123456789abcdef''), (''id_short'', JStr ''01234567''),
            (''state'', JStr ''active''), (''core'', JStr ''false''),
            (''ip_address'', JStr ''192.0.2.1''), (''sunrise'', JStr ''true''),
            (''cassini'', JStr ''false''), (''geoloc_region'', JStr ''EU''),
            (''geoloc_city'', JStr ''Kyiv''), (''geoloc_country'', JStr ''Ukraine''),
            (''geoloc_country_code'', JStr ''UA'')],
         s_value = JInt 1\<rparr>]\<rparr>)"
    by (simp add: NodeInfoMetric_add_def NodeInfoMetric_init_def info_add_metric_def
        dict_update_def bool_to_str_def lower_char_def)
  ultimately show ?thesis by blast
qed

end
